theory Spec2Isabelle
  imports Main "HOL-Library.Sublist"
begin

section \<open>Python values used by the two jobs\<close>

subsection \<open>Strings\<close>

text \<open>
  A Python \<open>str\<close> is a sequence of code points. The model uses \<^typ>\<open>string\<close>, one
  \<^typ>\<open>char\<close> per code point, which covers the code points below 256. The pound sign
  U+00A3 is one character, and the mis-encoded prefix that the sources call the
  "encoded variant" is the two characters U+00C2 U+00A3.
\<close>

definition pound :: char where
  "pound = char_of (163 :: nat)"

definition a_circ :: char where
  "a_circ = char_of (194 :: nat)"

text \<open>\<open>str.isspace\<close> on one code point below 256.\<close>

definition is_space :: "char \<Rightarrow> bool" where
  "is_space c =
     (let n = (of_char c :: nat)
      in (9 \<le> n \<and> n \<le> 13) \<or> (28 \<le> n \<and> n \<le> 32) \<or> n = 133 \<or> n = 160)"

text \<open>\<open>s.strip()\<close>: leading and trailing whitespace removed.\<close>

definition str_strip :: "string \<Rightarrow> string" where
  "str_strip s = rev (dropWhile is_space (rev (dropWhile is_space s)))"

text \<open>
  \<open>s.replace(old, new)\<close>: every non-overlapping occurrence of \<open>old\<close>, found from the
  left, is replaced by \<open>new\<close>; an empty \<open>old\<close> matches before every character and at
  the end.
\<close>

function str_replace :: "string \<Rightarrow> string \<Rightarrow> string \<Rightarrow> string" where
  "str_replace s old new =
     (if old = [] then new @ concat (map (\<lambda>c. c # new) s)
      else if s = [] then []
      else if prefix old s then new @ str_replace (drop (length old) s) old new
      else hd s # str_replace (tl s) old new)"
  by pat_completeness auto
termination
  by (relation "measure (\<lambda>(s, old, new). length s)") (auto simp: neq_Nil_conv)

declare str_replace.simps [simp del]

text \<open>\<open>sub in s\<close> on strings: \<open>sub\<close> occurs in \<open>s\<close> as a contiguous block.\<close>

fun str_contains :: "string \<Rightarrow> string \<Rightarrow> bool" where
  "str_contains sub [] = (sub = [])"
| "str_contains sub (c # cs) = (prefix sub (c # cs) \<or> str_contains sub cs)"

subsection \<open>Exceptions\<close>

text \<open>
  An exception is its class name and its message, the two things the handlers read
  (\<open>type(e).__name__\<close> and \<open>str(e)\<close>).
\<close>

datatype exn = Exn (exn_type: string) (exn_message: string)

subsection \<open>Floats\<close>

text \<open>
  A Python \<open>float\<close> is an IEEE 754 binary64 value. \<open>Finite m e\<close> is the number
  \<open>m * 2 ^ e\<close>, kept in the one form that rounding produces: \<open>2 ^ 52 \<le> \<bar>m\<bar> < 2 ^ 53\<close>
  with \<open>- 1074 \<le> e \<le> 971\<close>, or \<open>\<bar>m\<bar> < 2 ^ 52\<close> with \<open>e = - 1074\<close> (subnormals and
  zero). The sign of zero is not represented.
\<close>

datatype float64 = Finite int int | PosInf | NegInf | NaN

text \<open>Rounding of the non-negative fraction \<open>n / d\<close> to an integer, ties to even.\<close>

definition round_half_even :: "int \<Rightarrow> int \<Rightarrow> int" where
  "round_half_even n d =
     (let f = n div d; r = n mod d
      in if 2 * r < d then f
         else if d < 2 * r then f + 1
         else if even f then f else f + 1)"

text \<open>The number of binary digits of a positive integer (0 for 0).\<close>

function bit_length :: "int \<Rightarrow> int" where
  "bit_length n = (if n \<le> 0 then 0 else 1 + bit_length (n div 2))"
  by pat_completeness auto
termination
  by (relation "measure nat") auto

declare bit_length.simps [simp del]

text \<open>\<open>\<lfloor>log\<^sub>2 (a / q)\<rfloor>\<close> for positive \<open>a\<close> and \<open>q\<close>.\<close>

definition floor_log2 :: "int \<Rightarrow> int \<Rightarrow> int" where
  "floor_log2 a q =
     (let k = bit_length a - bit_length q
      in if (if 0 \<le> k then q * 2 ^ nat k \<le> a else q \<le> a * 2 ^ nat (- k)) then k else k - 1)"

text \<open>
  The binary64 value nearest to the fraction \<open>p / q\<close> (\<open>q > 0\<close>), ties to even, with
  gradual underflow and overflow to infinity: what a correctly rounded operation
  returns for the exact result \<open>p / q\<close>.
\<close>

definition round_to_float :: "int \<Rightarrow> int \<Rightarrow> float64" where
  "round_to_float p q =
     (if p = 0 then Finite 0 (- 1074)
      else
        let a = \<bar>p\<bar>;
            e = max (floor_log2 a q - 52) (- 1074);
            m = (if 0 \<le> e then round_half_even a (q * 2 ^ nat e)
                 else round_half_even (a * 2 ^ nat (- e)) q);
            m' = (if m = 2 ^ 53 then 2 ^ 52 else m);
            e' = (if m = 2 ^ 53 then e + 1 else e)
        in if 971 < e' then (if 0 < p then PosInf else NegInf)
           else Finite (if 0 < p then m' else - m') e')"

text \<open>The exact value \<open>m * 2 ^ e\<close> rounded; exact products and sums go through it.\<close>

definition round_scaled :: "int \<Rightarrow> int \<Rightarrow> float64" where
  "round_scaled m e =
     (if 0 \<le> e then round_to_float (m * 2 ^ nat e) 1 else round_to_float m (2 ^ nat (- e)))"

text \<open>The float written as the decimal literal \<open>n * 10 ^ (- k)\<close>, as \<open>1.27\<close> is \<open>dec 127 2\<close>.\<close>

definition dec :: "int \<Rightarrow> nat \<Rightarrow> float64" where
  "dec n k = round_to_float n (10 ^ k)"

definition is_zero :: "float64 \<Rightarrow> bool" where
  "is_zero x = (case x of Finite m e \<Rightarrow> m = 0 | _ \<Rightarrow> False)"

definition is_negative :: "float64 \<Rightarrow> bool" where
  "is_negative x = (case x of Finite m e \<Rightarrow> m < 0 | NegInf \<Rightarrow> True | _ \<Rightarrow> False)"

definition signed_inf :: "bool \<Rightarrow> float64" where
  "signed_inf neg = (if neg then NegInf else PosInf)"

text \<open>\<open>x * y\<close> on floats.\<close>

fun float_mul :: "float64 \<Rightarrow> float64 \<Rightarrow> float64" where
  "float_mul NaN y = NaN"
| "float_mul x NaN = NaN"
| "float_mul (Finite m1 e1) (Finite m2 e2) = round_scaled (m1 * m2) (e1 + e2)"
| "float_mul x y =
     (if is_zero x \<or> is_zero y then NaN else signed_inf (is_negative x \<noteq> is_negative y))"

text \<open>\<open>x + y\<close> on floats.\<close>

fun float_add :: "float64 \<Rightarrow> float64 \<Rightarrow> float64" where
  "float_add NaN y = NaN"
| "float_add x NaN = NaN"
| "float_add (Finite m1 e1) (Finite m2 e2) =
     (let e = min e1 e2 in round_scaled (m1 * 2 ^ nat (e1 - e) + m2 * 2 ^ nat (e2 - e)) e)"
| "float_add PosInf NegInf = NaN"
| "float_add NegInf PosInf = NaN"
| "float_add PosInf y = PosInf"
| "float_add NegInf y = NegInf"
| "float_add x y = y"

text \<open>
  \<open>x / y\<close> on floats: Python raises \<open>ZeroDivisionError\<close> for a zero divisor, whatever
  the dividend.
\<close>

fun float_truediv :: "float64 \<Rightarrow> float64 \<Rightarrow> exn + float64" where
  "float_truediv x (Finite m2 e2) =
     (if m2 = 0 then Inl (Exn ''ZeroDivisionError'' ''float division by zero'')
      else case x of
        Finite m1 e1 \<Rightarrow>
          (let s = (if m2 < 0 then - 1 else 1); p = s * m1; q = \<bar>m2\<bar>
           in Inr (if e2 \<le> e1 then round_to_float (p * 2 ^ nat (e1 - e2)) q
                   else round_to_float p (q * 2 ^ nat (e2 - e1))))
      | NaN \<Rightarrow> Inr NaN
      | _ \<Rightarrow> Inr (signed_inf (is_negative x \<noteq> (m2 < 0))))"
| "float_truediv x NaN = Inr NaN"
| "float_truediv NaN y = Inr NaN"
| "float_truediv (Finite m1 e1) y = Inr (Finite 0 (- 1074))"
| "float_truediv x y = Inr NaN"

text \<open>
  \<open>round(x, 2)\<close> on a float: the exact value of \<open>x\<close> is rounded to two decimals, ties
  to the even digit, and the decimal result is converted back to the nearest float.
  Infinities and NaN round to themselves.
\<close>

definition float_round2 :: "float64 \<Rightarrow> float64" where
  "float_round2 x =
     (case x of
        Finite m e \<Rightarrow>
          (let a = \<bar>m\<bar> * 100;
               n = (if 0 \<le> e then a * 2 ^ nat e else round_half_even a (2 ^ nat (- e)))
           in round_to_float (if m < 0 then - n else n) 100)
      | _ \<Rightarrow> x)"

text \<open>
  \<open>float(n)\<close> for an integer, as the mixed operators apply it to an \<open>int\<close> operand:
  correctly rounded, \<open>OverflowError\<close> when the integer is beyond the float range.
\<close>

definition float_of_int :: "int \<Rightarrow> exn + float64" where
  "float_of_int n =
     (case round_to_float n 1 of
        Finite m e \<Rightarrow> Inr (Finite m e)
      | _ \<Rightarrow> Inl (Exn ''OverflowError'' ''int too large to convert to float''))"

subsection \<open>\<open>float(s)\<close> on a string\<close>

definition is_digit :: "char \<Rightarrow> bool" where
  "is_digit c = (let n = (of_char c :: nat) in 48 \<le> n \<and> n \<le> 57)"

definition digit_value :: "char \<Rightarrow> int" where
  "digit_value c = int (of_char c) - 48"

definition digits_value :: "string \<Rightarrow> int" where
  "digits_value ds = foldl (\<lambda>a c. 10 * a + digit_value c) 0 ds"

definition ascii_lower :: "char \<Rightarrow> char" where
  "ascii_lower c =
     (let n = (of_char c :: nat) in if 65 \<le> n \<and> n \<le> 90 then char_of (n + 32) else c)"

text \<open>
  A \<open>digitpart\<close> of the float grammar, \<open>digit (["_"] digit)*\<close>, read from the front
  of the string: the digits read (underscores dropped) and the rest.
\<close>

fun scan_digitpart :: "string \<Rightarrow> string \<times> string" where
  "scan_digitpart [] = ([], [])"
| "scan_digitpart [c] = (if is_digit c then ([c], []) else ([], [c]))"
| "scan_digitpart (c # u # r) =
     (if is_digit c then
        (if u = CHR ''_'' \<and> r \<noteq> [] \<and> is_digit (hd r)
         then (let (ds, rest) = scan_digitpart r in (c # ds, rest))
         else (let (ds, rest) = scan_digitpart (u # r) in (c # ds, rest)))
      else ([], c # u # r))"

definition scan_sign :: "string \<Rightarrow> bool \<times> string" where
  "scan_sign s =
     (case s of
        [] \<Rightarrow> (False, [])
      | c # r \<Rightarrow> if c = CHR ''-'' then (True, r) else if c = CHR ''+'' then (False, r) else (False, s))"

text \<open>The optional \<open>exponent\<close>, which must reach the end of the string.\<close>

definition parse_exponent :: "string \<Rightarrow> int option" where
  "parse_exponent s =
     (case s of
        [] \<Rightarrow> Some 0
      | c # r \<Rightarrow>
          if c = CHR ''e'' \<or> c = CHR ''E'' then
            (let (neg, r1) = scan_sign r; (ds, r2) = scan_digitpart r1
             in if ds \<noteq> [] \<and> r2 = [] then Some (if neg then - digits_value ds else digits_value ds)
                else None)
          else None)"

text \<open>
  A \<open>floatnumber\<close>, \<open>([digitpart] "." digitpart | digitpart ["."]) [exponent]\<close>: the
  integer \<open>M\<close> made of all mantissa digits and the decimal exponent \<open>E\<close>, for the
  value \<open>M * 10 ^ E\<close>.
\<close>

definition parse_floatnumber :: "string \<Rightarrow> (int \<times> int) option" where
  "parse_floatnumber s =
     (let (ip, r1) = scan_digitpart s;
          (fp, r2) = (case r1 of
                        [] \<Rightarrow> ([], [])
                      | c # r \<Rightarrow> if c = CHR ''.'' then scan_digitpart r else ([], r1))
      in if ip = [] \<and> fp = [] then None
         else case parse_exponent r2 of
                None \<Rightarrow> None
              | Some x \<Rightarrow> Some (digits_value (ip @ fp), x - int (length fp)))"

definition hex_digit :: "nat \<Rightarrow> char" where
  "hex_digit n = (if n < 10 then char_of (48 + n) else char_of (87 + n))"

text \<open>\<open>repr(s)\<close> of a string, as it appears in the messages of \<open>ValueError\<close> and \<open>KeyError\<close>.\<close>

definition py_repr :: "string \<Rightarrow> string" where
  "py_repr s =
     (let q = (if CHR 0x27 \<in> set s \<and> CHR 0x22 \<notin> set s then CHR 0x22 else CHR 0x27);
          esc = (\<lambda>c. let n = (of_char c :: nat) in
                   if c = q \<or> c = CHR 0x5C then [CHR 0x5C, c]
                   else if n = 9 then [CHR 0x5C, CHR ''t'']
                   else if n = 10 then [CHR 0x5C, CHR ''n'']
                   else if n = 13 then [CHR 0x5C, CHR ''r'']
                   else if n < 32 \<or> (127 \<le> n \<and> n \<le> 160) \<or> n = 173
                     then [CHR 0x5C, CHR ''x'', hex_digit (n div 16), hex_digit (n mod 16)]
                   else [c])
      in q # concat (map esc s) @ [q])"

text \<open>
  The whitespace \<open>float\<close> removes around its argument: the ASCII characters tab to
  carriage return and the space, and the whitespace code points from 127 on (which
  it first turns into spaces). Unlike \<open>str.strip\<close> it leaves the four separators
  U+001C to U+001F in place.
\<close>

definition is_float_space :: "char \<Rightarrow> bool" where
  "is_float_space c =
     (let n = (of_char c :: nat)
      in (9 \<le> n \<and> n \<le> 13) \<or> n = 32 \<or> n = 133 \<or> n = 160)"

definition float_strip :: "string \<Rightarrow> string" where
  "float_strip s = rev (dropWhile is_float_space (rev (dropWhile is_float_space s)))"

text \<open>
  \<open>float(s)\<close>: whitespace removed, an optional sign, then \<open>inf\<close>, \<open>infinity\<close> or \<open>nan\<close>
  in any case, or a \<open>floatnumber\<close>, converted to the nearest float; \<open>ValueError\<close>
  otherwise.
\<close>

definition py_float :: "string \<Rightarrow> exn + float64" where
  "py_float s =
     (let (neg, r) = scan_sign (float_strip s); l = map ascii_lower r
      in if l = ''inf'' \<or> l = ''infinity'' then Inr (signed_inf neg)
         else if l = ''nan'' then Inr NaN
         else case parse_floatnumber r of
                None \<Rightarrow> Inl (Exn ''ValueError'' (''could not convert string to float: '' @ py_repr s))
              | Some (M, E) \<Rightarrow>
                  (let p = (if neg then - M else M)
                   in Inr (if 0 \<le> E then round_to_float (p * 10 ^ nat E) 1
                           else round_to_float p (10 ^ nat (- E)))))"

subsection \<open>Numbers: \<open>int\<close> or \<open>float\<close>\<close>

text \<open>
  The running total of the transform starts as the \<open>int\<close> 0 and becomes a \<open>float\<close> with
  the first price added; the operators convert an \<open>int\<close> operand to \<open>float\<close> first.
\<close>

datatype pynum = PyInt int | PyFloat float64

definition to_float :: "pynum \<Rightarrow> exn + float64" where
  "to_float x = (case x of PyInt n \<Rightarrow> float_of_int n | PyFloat f \<Rightarrow> Inr f)"

text \<open>\<open>x + y\<close> and \<open>x * y\<close> for a number \<open>x\<close> and a float \<open>y\<close>.\<close>

definition num_add :: "pynum \<Rightarrow> float64 \<Rightarrow> exn + float64" where
  "num_add x y = (case to_float x of Inl e \<Rightarrow> Inl e | Inr f \<Rightarrow> Inr (float_add f y))"

definition num_mul :: "pynum \<Rightarrow> float64 \<Rightarrow> exn + float64" where
  "num_mul x y = (case to_float x of Inl e \<Rightarrow> Inl e | Inr f \<Rightarrow> Inr (float_mul f y))"

text \<open>\<open>x / n\<close> for a number \<open>x\<close> and an \<open>int\<close> \<open>n\<close>.\<close>

definition num_truediv :: "pynum \<Rightarrow> int \<Rightarrow> exn + float64" where
  "num_truediv x n =
     (case x of
        PyFloat f \<Rightarrow> (case float_of_int n of Inl e \<Rightarrow> Inl e | Inr d \<Rightarrow> float_truediv f d)
      | PyInt a \<Rightarrow>
          if n = 0 then Inl (Exn ''ZeroDivisionError'' ''division by zero'')
          else (case round_to_float (if n < 0 then - a else a) \<bar>n\<bar> of
                  Finite m e \<Rightarrow> Inr (Finite m e)
                | _ \<Rightarrow> Inl (Exn ''OverflowError'' ''integer division result too large for a float'')))"

text \<open>\<open>round(x, 2)\<close>: an \<open>int\<close> is returned as it is.\<close>

definition num_round2 :: "pynum \<Rightarrow> pynum" where
  "num_round2 x = (case x of PyInt n \<Rightarrow> PyInt n | PyFloat f \<Rightarrow> PyFloat (float_round2 f))"

section \<open>Catalog records and the clock\<close>

text \<open>
  A raw book record is a \<open>dict\<close> with string keys; the scrape stores the three keys
  \<open>title\<close>, \<open>price\<close> and \<open>availability\<close>, each with a string value. \<open>book[key]\<close> raises
  \<open>KeyError\<close> for an absent key.
\<close>

type_synonym book = "string \<rightharpoonup> string"

definition dict_get :: "book \<Rightarrow> string \<Rightarrow> exn + string" where
  "dict_get book key =
     (case book key of None \<Rightarrow> Inl (Exn ''KeyError'' (py_repr key)) | Some v \<Rightarrow> Inr v)"

text \<open>
  \<open>datetime.utcnow()\<close> is read several times in a run. The clock gives, for the
  \<open>n\<close>-th reading of a run, its \<open>isoformat()\<close> and its \<open>strftime\<close> renderings, and the
  rounded number of seconds between two readings.
\<close>

record clock =
  isoformat :: "nat \<Rightarrow> string"
  strftime_date :: "nat \<Rightarrow> string"
  strftime_stamp :: "nat \<Rightarrow> string"
  elapsed_seconds :: "nat \<Rightarrow> nat \<Rightarrow> float64"

section \<open>Collector: price parsing and the staging rows (\<open>extract_lambda.py\<close>)\<close>

text \<open>
  \<open>parse_price\<close>: \<open>price_str.replace(P, "").replace(A, "").strip()\<close>, then \<open>float\<close>,
  where \<open>P\<close> is the one-character string U+00A3 and \<open>A\<close> the one-character string
  U+00C2; the \<open>ValueError\<close> is logged and raised again.
\<close>

definition parse_price :: "string \<Rightarrow> exn + float64" where
  "parse_price price_str =
     py_float (str_strip (str_replace (str_replace price_str [pound] []) [a_circ] []))"

text \<open>
  One tuple of \<open>batch_data\<close>: title, price, availability text, in-stock flag, scrape
  date, batch identifier.
\<close>

type_synonym staging_tuple = "string \<times> float64 \<times> string \<times> bool \<times> string \<times> string"

text \<open>
  The body of the \<open>try\<close> in the loop of \<open>save_to_rds\<close>, for one book: any exception
  raised here is what the \<open>except\<close> of the loop catches.
\<close>

definition staging_row :: "book \<Rightarrow> string \<Rightarrow> string \<Rightarrow> exn + staging_tuple" where
  "staging_row book run_date batch_id =
     (case dict_get book ''price'' of Inl e \<Rightarrow> Inl e | Inr price_str \<Rightarrow>
      case parse_price price_str of Inl e \<Rightarrow> Inl e | Inr price \<Rightarrow>
      case dict_get book ''availability'' of Inl e \<Rightarrow> Inl e | Inr avail \<Rightarrow>
      let is_in_stock = str_contains ''In stock'' avail in
      case dict_get book ''title'' of Inl e \<Rightarrow> Inl e | Inr ttl \<Rightarrow>
        Inr (ttl, price, avail, is_in_stock, run_date, batch_id))"

text \<open>The loop of \<open>save_to_rds\<close>: a book whose body raises is logged and skipped.\<close>

fun build_batch_data ::
  "book list \<Rightarrow> string \<Rightarrow> string \<Rightarrow> staging_tuple list \<Rightarrow> staging_tuple list" where
  "build_batch_data [] run_date batch_id batch_data = batch_data"
| "build_batch_data (book # books) run_date batch_id batch_data =
     (case staging_row book run_date batch_id of
        Inl e \<Rightarrow> build_batch_data books run_date batch_id batch_data
      | Inr row \<Rightarrow> build_batch_data books run_date batch_id (batch_data @ [row]))"

section \<open>Reconciler: the transform (\<open>transform_lambda.py\<close>)\<close>

record processed_book =
  title :: string
  price_gbp :: float64
  price_usd :: float64
  price_eur :: float64
  in_stock :: bool
  availability :: string
  processed_at :: string

record summary =
  date :: string
  total_books_raw :: int
  books_in_stock :: int
  books_out_of_stock :: int
  total_inventory_value_gbp :: pynum
  total_inventory_value_usd :: pynum
  average_price_gbp :: pynum
  summary_processed_at :: string

text \<open>The local variables of \<open>transform_data\<close>, and the number of clock readings so far.\<close>

record transform_state =
  processed :: "processed_book list"
  total_value_gbp :: pynum
  in_stock_count :: int
  out_of_stock_count :: int
  clock_reads :: nat

text \<open>
  The price extraction written inline in \<open>transform_data\<close>:
  \<open>book["price"].replace(AP, "").replace(P, "").strip()\<close>, then \<open>float\<close>, where \<open>AP\<close>
  is the two-character string U+00C2 U+00A3 and \<open>P\<close> the one-character string U+00A3.
\<close>

definition transform_price :: "string \<Rightarrow> exn + float64" where
  "transform_price price_str =
     py_float (str_strip (str_replace (str_replace price_str [a_circ, pound] []) [pound] []))"

text \<open>
  One iteration of the loop of \<open>transform_data\<close>, with its \<open>try\<close> and \<open>except\<close>: an
  exception ends the iteration, and the assignments made before it stay.
\<close>

definition transform_book :: "clock \<Rightarrow> book \<Rightarrow> transform_state \<Rightarrow> transform_state" where
  "transform_book clk book st =
     (case dict_get book ''price'' of Inl e \<Rightarrow> st | Inr price_str \<Rightarrow>
      case transform_price price_str of Inl e \<Rightarrow> st | Inr price \<Rightarrow>
      case dict_get book ''availability'' of Inl e \<Rightarrow> st | Inr avail \<Rightarrow>
      if str_contains ''In stock'' avail then
        (let st1 = st\<lparr>in_stock_count := in_stock_count st + 1\<rparr> in
         case num_add (total_value_gbp st1) price of Inl e \<Rightarrow> st1 | Inr tot \<Rightarrow>
         let st2 = st1\<lparr>total_value_gbp := PyFloat tot\<rparr> in
         case dict_get book ''title'' of Inl e \<Rightarrow> st2 | Inr ttl \<Rightarrow>
           st2\<lparr>processed := processed st2 @
                  [\<lparr>title = ttl,
                    price_gbp = float_round2 price,
                    price_usd = float_round2 (float_mul price (dec 127 2)),
                    price_eur = float_round2 (float_mul price (dec 117 2)),
                    in_stock = True,
                    availability = avail,
                    processed_at = isoformat clk (clock_reads st2)\<rparr>],
                clock_reads := clock_reads st2 + 1\<rparr>)
      else st\<lparr>out_of_stock_count := out_of_stock_count st + 1\<rparr>)"

text \<open>The loop, from the initial values of the local variables.\<close>

definition transform_loop :: "clock \<Rightarrow> nat \<Rightarrow> book list \<Rightarrow> transform_state" where
  "transform_loop clk reads raw_data =
     foldl (\<lambda>st book. transform_book clk book st)
       \<lparr>processed = [], total_value_gbp = PyInt 0, in_stock_count = 0,
        out_of_stock_count = 0, clock_reads = reads\<rparr>
       raw_data"

text \<open>
  The summary dictionary, built outside the \<open>try\<close> of the loop, its values evaluated
  in the order written.
\<close>

definition make_summary :: "clock \<Rightarrow> book list \<Rightarrow> transform_state \<Rightarrow> exn + summary" where
  "make_summary clk raw_data st =
     (case num_mul (total_value_gbp st) (dec 127 2) of Inl e \<Rightarrow> Inl e | Inr usd \<Rightarrow>
      case (if 0 < in_stock_count st
            then (case num_truediv (total_value_gbp st) (in_stock_count st) of
                    Inl e \<Rightarrow> Inl e
                  | Inr avg \<Rightarrow> Inr (PyFloat (float_round2 avg)))
            else Inr (PyInt 0)) of Inl e \<Rightarrow> Inl e | Inr average \<Rightarrow>
        Inr \<lparr>date = strftime_date clk (clock_reads st),
             total_books_raw = int (length raw_data),
             books_in_stock = in_stock_count st,
             books_out_of_stock = out_of_stock_count st,
             total_inventory_value_gbp = num_round2 (total_value_gbp st),
             total_inventory_value_usd = PyFloat (float_round2 usd),
             average_price_gbp = average,
             summary_processed_at = isoformat clk (clock_reads st + 1)\<rparr>)"

text \<open>
  \<open>transform_data\<close>, called when \<open>reads\<close> clock readings have been made: the processed
  list and the summary.
\<close>

definition transform_data ::
  "clock \<Rightarrow> nat \<Rightarrow> book list \<Rightarrow> exn + (processed_book list \<times> summary)" where
  "transform_data clk reads raw_data =
     (let st = transform_loop clk reads raw_data
      in case make_summary clk raw_data st of
           Inl e \<Rightarrow> Inl e
         | Inr s \<Rightarrow> Inr (processed st, s))"

section \<open>The services the jobs call\<close>

subsection \<open>SQL statements and values\<close>

text \<open>
  The values psycopg2 passes as parameters and returns in rows. \<open>SqlOther\<close> is an
  object of another class (named by its class), as a \<open>Decimal\<close> or a \<open>datetime\<close>.
\<close>

datatype sql_value =
  SqlText string | SqlFloat float64 | SqlBool bool | SqlInt int | SqlNull | SqlOther string

text \<open>
  The three statements of the two jobs, as syntax trees. \<open>Param i\<close> is the \<open>i\<close>-th
  \<open>%s\<close> placeholder of the statement, counted from 0.
\<close>

datatype relation = Table string | FunctionCall string "nat list"

datatype condition = ColumnEqParam string nat | ColumnEqBool string bool

record select_statement =
  sel_distinct :: bool
  sel_columns :: "string list"
  sel_from :: relation
  sel_where :: "condition list"
  sel_order_by :: "(string \<times> bool) list"
  sel_limit :: "nat option"

datatype statement =
  Select select_statement
| InsertInto string "string list"

text \<open>
  \<open>INSERT INTO staging_books (title, price_gbp, availability, is_in_stock,
  scraped_date, batch_id) VALUES (%s, %s, %s, %s, %s, %s)\<close>
\<close>

definition insert_query :: statement where
  "insert_query =
     InsertInto ''staging_books''
       [''title'', ''price_gbp'', ''availability'', ''is_in_stock'', ''scraped_date'', ''batch_id'']"

text \<open>
  \<open>SELECT DISTINCT batch_id FROM staging_books WHERE scraped_date = %s AND
  processed = FALSE ORDER BY created_at DESC LIMIT 1\<close>; in \<open>sel_order_by\<close> the flag
  is \<open>True\<close> for \<open>DESC\<close>.
\<close>

definition batch_id_query :: statement where
  "batch_id_query =
     Select \<lparr>sel_distinct = True,
             sel_columns = [''batch_id''],
             sel_from = Table ''staging_books'',
             sel_where = [ColumnEqParam ''scraped_date'' 0, ColumnEqBool ''processed'' False],
             sel_order_by = [(''created_at'', True)],
             sel_limit = Some 1\<rparr>"

text \<open>\<open>SELECT * FROM process_cdc_batch(%s, %s)\<close>\<close>

definition cdc_query :: statement where
  "cdc_query =
     Select \<lparr>sel_distinct = False,
             sel_columns = [''*''],
             sel_from = FunctionCall ''process_cdc_batch'' [0, 1],
             sel_where = [],
             sel_order_by = [],
             sel_limit = None\<rparr>"

subsection \<open>The database, the object store and the trace of calls\<close>

text \<open>
  What the database does in one stage of a run: whether \<open>get_db_connection\<close> and
  \<open>conn.cursor\<close> raise, what \<open>cursor.execute\<close> raises or the rows its result holds,
  and whether \<open>cursor.executemany\<close>, \<open>conn.commit\<close> and \<open>conn.rollback\<close> raise.
  \<open>return_db_connection\<close> catches its own exceptions and never raises.
\<close>

record database =
  connect_failure :: "exn option"
  cursor_failure :: "exn option"
  execute_result :: "statement \<Rightarrow> sql_value list \<Rightarrow> exn + sql_value list list"
  executemany_failure :: "statement \<Rightarrow> sql_value list list \<Rightarrow> exn option"
  commit_failure :: "exn option"
  rollback_failure :: "exn option"

text \<open>\<open>cursor.fetchone()\<close>: the first row of the result, or \<open>None\<close>.\<close>

definition fetchone :: "sql_value list list \<Rightarrow> sql_value list option" where
  "fetchone rows = (case rows of [] \<Rightarrow> None | r # _ \<Rightarrow> Some r)"

text \<open>
  The objects written to the store are \<open>json.dumps\<close> of a book list, of a processed
  list or of a summary; the model keeps the value that is serialised.
\<close>

datatype s3_body =
  RawBooks "book list" | ProcessedBooks "processed_book list" | SummaryObject summary

text \<open>
  \<open>s3.get_object\<close> for a key raises \<open>NoSuchKey\<close>, raises another exception, or returns
  a body; \<open>GetBody\<close> holds what \<open>json.loads\<close> of the body's bytes gives, an exception
  or the decoded list of books.
\<close>

datatype get_object_result = NoSuchKey | GetFailed exn | GetBody "exn + book list"

record storage =
  get_object :: "string \<Rightarrow> get_object_result"
  put_object_failure :: "string \<Rightarrow> exn option"

text \<open>
  The calls a function makes to the store and to the database, in order; a call
  is listed whether it returns or raises.
\<close>

datatype event =
  GetObject string
| PutObject string s3_body
| Connect
| Cursor
| Execute statement "sql_value list"
| ExecuteMany statement "sql_value list list"
| Commit
| Rollback
| ReturnConnection

text \<open>
  The \<open>except\<close> and \<open>finally\<close> blocks of a database stage that rolls back: after the
  calls \<open>tr\<close>, exception \<open>e\<close> is caught, \<open>conn.rollback()\<close> runs, the exception is
  raised again (or the one \<open>rollback\<close> raised), and the connection is returned.
\<close>

definition rollback_and_raise :: "database \<Rightarrow> exn \<Rightarrow> event list \<Rightarrow> (exn + 'a) \<times> event list" where
  "rollback_and_raise db e tr =
     (Inl (case rollback_failure db of Some r \<Rightarrow> r | None \<Rightarrow> e),
      tr @ [Rollback, ReturnConnection])"

section \<open>Collector: the stages and the handler (\<open>extract_lambda.py\<close>)\<close>

definition save_to_s3 :: "storage \<Rightarrow> book list \<Rightarrow> string \<Rightarrow> (exn + string) \<times> event list" where
  "save_to_s3 s3 books run_date =
     (let key = ''raw/books/date='' @ run_date @ ''/books.json''
      in (case put_object_failure s3 key of Some e \<Rightarrow> Inl e | None \<Rightarrow> Inr key,
          [PutObject key (RawBooks books)]))"

text \<open>A tuple of \<open>batch_data\<close> as the parameters of one row of the insert.\<close>

definition row_parameters :: "staging_tuple \<Rightarrow> sql_value list" where
  "row_parameters t =
     (case t of (ttl, price, avail, is_in_stock, run_date, batch_id) \<Rightarrow>
        [SqlText ttl, SqlFloat price, SqlText avail, SqlBool is_in_stock,
         SqlText run_date, SqlText batch_id])"

text \<open>
  \<open>save_to_rds\<close>: the number of rows inserted, or the exception raised; with it the
  calls made. When \<open>get_db_connection\<close> raises there is no connection to roll back
  or to return.
\<close>

definition save_to_rds ::
  "database \<Rightarrow> book list \<Rightarrow> string \<Rightarrow> string \<Rightarrow> string \<Rightarrow> (exn + int) \<times> event list" where
  "save_to_rds db books run_date s3_key batch_id =
     (case connect_failure db of
        Some e \<Rightarrow> (Inl e, [Connect])
      | None \<Rightarrow>
          (case cursor_failure db of
             Some e \<Rightarrow> rollback_and_raise db e [Connect, Cursor]
           | None \<Rightarrow>
               (let batch_data = build_batch_data books run_date batch_id [];
                    rows = map row_parameters batch_data;
                    tr = [Connect, Cursor, ExecuteMany insert_query rows]
                in case executemany_failure db insert_query rows of
                     Some e \<Rightarrow> rollback_and_raise db e tr
                   | None \<Rightarrow>
                       (case commit_failure db of
                          Some e \<Rightarrow> rollback_and_raise db e (tr @ [Commit])
                        | None \<Rightarrow>
                            (Inr (int (length batch_data)),
                             tr @ [Commit, ReturnConnection])))))"

text \<open>\<open>generate_batch_id(prefix)\<close> of \<open>db_utils.py\<close>, at clock reading \<open>n\<close>.\<close>

definition generate_batch_id :: "clock \<Rightarrow> nat \<Rightarrow> string \<Rightarrow> string" where
  "generate_batch_id clk n pref = pref @ ''_'' @ strftime_stamp clk n"

text \<open>
  What a run of the Collector meets: the clock, the result of \<open>test_connection()\<close>
  (of \<open>db_utils.py\<close>: it runs \<open>SELECT 1\<close> on a connection of its own, catches every
  exception and returns a boolean; its calls are not listed in the trace), the
  result of \<open>scrape_books()\<close> (the list of records or the exception of the fetch),
  the object store and the database.
\<close>

record collector_env =
  c_clock :: clock
  c_test_connection :: bool
  c_scrape_books :: "exn + book list"
  c_storage :: storage
  c_database :: database

text \<open>The dictionary the Collector returns on success.\<close>

record extract_result =
  x_status :: string
  x_run_date :: string
  x_batch_id :: string
  x_records_scraped :: int
  x_records_inserted_rds :: int
  x_s3_key :: string
  x_execution_time_seconds :: float64
  x_timestamp :: string

text \<open>
  The \<open>try\<close> block of the Collector's \<open>lambda_handler\<close>: the result dictionary, or the
  exception raised in the block; with it the calls made. The clock is read at the
  start of the handler (reading 0), in \<open>generate_batch_id\<close> (reading 1) and at the
  end (reading 2).
\<close>

definition extract_try :: "collector_env \<Rightarrow> (exn + extract_result) \<times> event list" where
  "extract_try env =
     (let clk = c_clock env;
          run_date = strftime_date clk 0;
          batch_id = generate_batch_id clk 1 ''extract''
      in if \<not> c_test_connection env
         then (Inl (Exn ''Exception'' ''Database connection test failed''), [])
         else case c_scrape_books env of
           Inl e \<Rightarrow> (Inl e, [])
         | Inr books \<Rightarrow>
             if length books = 0
             then (Inl (Exn ''Exception'' ''No books scraped - possible website structure change''), [])
             else case save_to_s3 (c_storage env) books run_date of
               (Inl e, tr1) \<Rightarrow> (Inl e, tr1)
             | (Inr s3_key, tr1) \<Rightarrow>
                 (case save_to_rds (c_database env) books run_date s3_key batch_id of
                    (Inl e, tr2) \<Rightarrow> (Inl e, tr1 @ tr2)
                  | (Inr db_records, tr2) \<Rightarrow>
                      (Inr \<lparr>x_status = ''success'',
                            x_run_date = run_date,
                            x_batch_id = batch_id,
                            x_records_scraped = int (length books),
                            x_records_inserted_rds = db_records,
                            x_s3_key = s3_key,
                            x_execution_time_seconds = elapsed_seconds clk 0 2,
                            x_timestamp = isoformat clk 2\<rparr>,
                       tr1 @ tr2)))"

text \<open>
  \<open>lambda_handler\<close> of the Collector. \<open>Inl e\<close> is exception \<open>e\<close> leaving the handler:
  the \<open>except\<close> block builds an error dictionary, prints it, and ends with \<open>raise\<close>,
  so the exception caught is raised again and the dictionary is dropped.
\<close>

definition extract_lambda_handler :: "collector_env \<Rightarrow> (exn + extract_result) \<times> event list" where
  "extract_lambda_handler env =
     (case extract_try env of
        (Inr result, tr) \<Rightarrow> (Inr result, tr)
      | (Inl e, tr) \<Rightarrow> (Inl e, tr))"

section \<open>Reconciler: the stages and the handler (\<open>transform_lambda.py\<close>)\<close>

text \<open>
  The number of clock readings made once \<open>transform_data\<close> has returned or raised:
  one per processed record, and the one or two of the summary.
\<close>

definition transform_clock_reads :: "clock \<Rightarrow> nat \<Rightarrow> book list \<Rightarrow> nat" where
  "transform_clock_reads clk reads raw_data =
     (let st = transform_loop clk reads raw_data
      in case make_summary clk raw_data st of
           Inl e \<Rightarrow> clock_reads st + 1
         | Inr s \<Rightarrow> clock_reads st + 2)"

text \<open>
  \<open>read_from_s3\<close>: \<open>NoSuchKey\<close> has an \<open>except\<close> clause of its own, which raises a new
  \<open>Exception\<close> naming the key; any other exception is raised again as it is.
\<close>

definition read_from_s3 :: "storage \<Rightarrow> string \<Rightarrow> (exn + book list) \<times> event list" where
  "read_from_s3 s3 run_date =
     (let raw_key = ''raw/books/date='' @ run_date @ ''/books.json''
      in (case get_object s3 raw_key of
            NoSuchKey \<Rightarrow> Inl (Exn ''Exception'' (''Raw data file not found: '' @ raw_key))
          | GetFailed e \<Rightarrow> Inl e
          | GetBody (Inl e) \<Rightarrow> Inl e
          | GetBody (Inr raw_data) \<Rightarrow> Inr raw_data,
          [GetObject raw_key]))"

definition save_processed_to_s3 ::
  "storage \<Rightarrow> processed_book list \<Rightarrow> summary \<Rightarrow> string \<Rightarrow> (exn + string \<times> string) \<times> event list" where
  "save_processed_to_s3 s3 procd summ run_date =
     (let processed_key = ''processed/books/date='' @ run_date @ ''/books.json'';
          summary_key = ''processed/summary/date='' @ run_date @ ''/summary.json''
      in case put_object_failure s3 processed_key of
           Some e \<Rightarrow> (Inl e, [PutObject processed_key (ProcessedBooks procd)])
         | None \<Rightarrow>
             (case put_object_failure s3 summary_key of Some e \<Rightarrow> Inl e
                                                      | None \<Rightarrow> Inr (processed_key, summary_key),
              [PutObject processed_key (ProcessedBooks procd),
               PutObject summary_key (SummaryObject summ)]))"

text \<open>
  \<open>get_extract_batch_id\<close>: the first column of the first row, when \<open>fetchone\<close> gives a
  row that is true as a condition (a non-empty tuple). The \<open>except\<close> block prints and
  raises again; the \<open>finally\<close> block returns the connection.
\<close>

definition get_extract_batch_id :: "database \<Rightarrow> string \<Rightarrow> (exn + sql_value) \<times> event list" where
  "get_extract_batch_id db run_date =
     (case connect_failure db of
        Some e \<Rightarrow> (Inl e, [Connect])
      | None \<Rightarrow>
          (case cursor_failure db of
             Some e \<Rightarrow> (Inl e, [Connect, Cursor, ReturnConnection])
           | None \<Rightarrow>
               (case execute_result db batch_id_query [SqlText run_date] of
                  Inl e \<Rightarrow> Inl e
                | Inr rows \<Rightarrow>
                    (case fetchone rows of
                       Some (batch_id # rest) \<Rightarrow> Inr batch_id
                     | _ \<Rightarrow> Inl (Exn ''Exception''
                                  (''No unprocessed batch found for date: '' @ run_date))),
                [Connect, Cursor, Execute batch_id_query [SqlText run_date],
                 ReturnConnection])))"

record cdc_summary =
  new_books :: sql_value
  removed_books :: sql_value
  price_changes :: sql_value
  stock_changes :: sql_value
  total_processed :: sql_value

text \<open>
  The message of the \<open>ValueError\<close> that unpacking a row of \<open>n\<close> values into five names
  raises, for \<open>n\<close> other than 5.
\<close>

definition unpack_message :: "nat \<Rightarrow> string" where
  "unpack_message n =
     (if n < 5 then ''not enough values to unpack (expected 5, got '' @ [char_of (48 + n)] @ '')''
      else ''too many values to unpack (expected 5)'')"

text \<open>
  \<open>execute_cdc_batch_processing\<close>: the row \<open>fetchone\<close> gives is unpacked into the five
  names in order and the transaction committed; every exception raised after the
  connection was obtained goes through the rollback.
\<close>

definition execute_cdc_batch_processing ::
  "database \<Rightarrow> sql_value \<Rightarrow> string \<Rightarrow> (exn + cdc_summary) \<times> event list" where
  "execute_cdc_batch_processing db batch_id run_date =
     (case connect_failure db of
        Some e \<Rightarrow> (Inl e, [Connect])
      | None \<Rightarrow>
          (case cursor_failure db of
             Some e \<Rightarrow> rollback_and_raise db e [Connect, Cursor]
           | None \<Rightarrow>
               (let params = [batch_id, SqlText run_date];
                    tr = [Connect, Cursor, Execute cdc_query params]
                in case execute_result db cdc_query params of
                     Inl e \<Rightarrow> rollback_and_raise db e tr
                   | Inr rows \<Rightarrow>
                       (case fetchone rows of
                          None \<Rightarrow>
                            rollback_and_raise db
                              (Exn ''Exception'' ''CDC stored procedure returned no results'') tr
                        | Some [] \<Rightarrow>
                            rollback_and_raise db
                              (Exn ''Exception'' ''CDC stored procedure returned no results'') tr
                        | Some [v1, v2, v3, v4, v5] \<Rightarrow>
                            (case commit_failure db of
                               Some e \<Rightarrow> rollback_and_raise db e (tr @ [Commit])
                             | None \<Rightarrow>
                                 (Inr \<lparr>new_books = v1, removed_books = v2, price_changes = v3,
                                       stock_changes = v4, total_processed = v5\<rparr>,
                                  tr @ [Commit, ReturnConnection]))
                        | Some row \<Rightarrow>
                            rollback_and_raise db
                              (Exn ''ValueError'' (unpack_message (length row))) tr))))"

text \<open>
  What a run of the Reconciler meets: the clock, the result of \<open>test_connection()\<close>,
  the object store, and the database as the batch lookup and as the CDC call find
  it.
\<close>

record reconciler_env =
  r_clock :: clock
  r_test_connection :: bool
  r_storage :: storage
  r_batch_database :: database
  r_cdc_database :: database

record success_body =
  s_status :: string
  s_run_date :: string
  s_batch_id :: sql_value
  s_processed_records :: int
  s_summary :: summary
  s_cdc_summary :: cdc_summary
  s_s3_keys :: "string \<times> string"
  s_execution_time_seconds :: float64
  s_timestamp :: string

record error_body =
  e_status :: string
  e_run_date :: string
  error_message :: string
  error_type :: string
  e_execution_time_seconds :: float64
  e_timestamp :: string

text \<open>The \<open>body\<close> of a response is \<open>json.dumps\<close> of one of the two dictionaries.\<close>

datatype response_body = SuccessBody success_body | ErrorBody error_body

record response =
  statusCode :: int
  body :: response_body

text \<open>
  \<open>json.dumps\<close> of the success dictionary raises \<open>TypeError\<close> at the first value it
  cannot serialise; of the values in it only those the database returned can be
  of such a class.
\<close>

definition json_failure :: "sql_value list \<Rightarrow> exn option" where
  "json_failure vs =
     (case [c. SqlOther c \<leftarrow> vs] of
        [] \<Rightarrow> None
      | c # _ \<Rightarrow> Some (Exn ''TypeError'' (''Object of type '' @ c @ '' is not JSON serializable'')))"

text \<open>
  The \<open>try\<close> block of the Reconciler's \<open>lambda_handler\<close>: the response returned or the
  exception raised in the block, the calls made, and the number of clock readings
  made so far (reading 0 is the start of the handler).
\<close>

definition transform_try :: "reconciler_env \<Rightarrow> (exn + response) \<times> event list \<times> nat" where
  "transform_try env =
     (let clk = r_clock env;
          run_date = strftime_date clk 0
      in if \<not> r_test_connection env
         then (Inl (Exn ''Exception'' ''Database connection test failed''), [], 1)
         else case read_from_s3 (r_storage env) run_date of
           (Inl e, tr1) \<Rightarrow> (Inl e, tr1, 1)
         | (Inr raw_data, tr1) \<Rightarrow>
             (let n = transform_clock_reads clk 1 raw_data
              in case transform_data clk 1 raw_data of
                   Inl e \<Rightarrow> (Inl e, tr1, n)
                 | Inr (procd, summ) \<Rightarrow>
                     (case save_processed_to_s3 (r_storage env) procd summ run_date of
                        (Inl e, tr2) \<Rightarrow> (Inl e, tr1 @ tr2, n)
                      | (Inr s3_keys, tr2) \<Rightarrow>
                          (case get_extract_batch_id (r_batch_database env) run_date of
                             (Inl e, tr3) \<Rightarrow> (Inl e, tr1 @ tr2 @ tr3, n)
                           | (Inr batch_id, tr3) \<Rightarrow>
                               (case execute_cdc_batch_processing (r_cdc_database env)
                                       batch_id run_date of
                                  (Inl e, tr4) \<Rightarrow> (Inl e, tr1 @ tr2 @ tr3 @ tr4, n)
                                | (Inr cdc, tr4) \<Rightarrow>
                                    (case json_failure
                                            [batch_id, new_books cdc, removed_books cdc,
                                             price_changes cdc, stock_changes cdc,
                                             total_processed cdc] of
                                       Some e \<Rightarrow> (Inl e, tr1 @ tr2 @ tr3 @ tr4, n + 1)
                                     | None \<Rightarrow>
                                         (Inr \<lparr>statusCode = 200,
                                               body = SuccessBody
                                                 \<lparr>s_status = ''success'',
                                                  s_run_date = run_date,
                                                  s_batch_id = batch_id,
                                                  s_processed_records = int (length procd),
                                                  s_summary = summ,
                                                  s_cdc_summary = cdc,
                                                  s_s3_keys = s3_keys,
                                                  s_execution_time_seconds = elapsed_seconds clk 0 n,
                                                  s_timestamp = isoformat clk n\<rparr>\<rparr>,
                                          tr1 @ tr2 @ tr3 @ tr4, n + 1)))))))"

text \<open>
  \<open>lambda_handler\<close> of the Reconciler: the \<open>except\<close> block reads the clock, builds the
  error response from the exception caught and returns it.
\<close>

definition transform_lambda_handler :: "reconciler_env \<Rightarrow> (exn + response) \<times> event list" where
  "transform_lambda_handler env =
     (case transform_try env of
        (Inr result, tr, n) \<Rightarrow> (Inr result, tr)
      | (Inl e, tr, n) \<Rightarrow>
          (Inr \<lparr>statusCode = 500,
                body = ErrorBody
                  \<lparr>e_status = ''error'',
                   e_run_date = strftime_date (r_clock env) 0,
                   error_message = exn_message e,
                   error_type = exn_type e,
                   e_execution_time_seconds = elapsed_seconds (r_clock env) 0 n,
                   e_timestamp = isoformat (r_clock env) n\<rparr>\<rparr>,
           tr))"

section \<open>PostgreSQL's check of a \<open>SELECT DISTINCT\<close>\<close>

text \<open>
  The database of the jobs is PostgreSQL, reached through psycopg2. PostgreSQL
  analyses a statement before it runs it, and the analysis rejects a
  \<open>SELECT DISTINCT\<close> whose \<open>ORDER BY\<close> names an expression that is not in the select
  list, whatever the tables hold (SQLSTATE 42P10, which psycopg2 raises from
  \<open>cursor.execute\<close> as \<open>InvalidColumnReference\<close>, a subclass of its
  \<open>ProgrammingError\<close>).
\<close>

definition order_by_outside_select_list :: "select_statement \<Rightarrow> bool" where
  "order_by_outside_select_list q =
     (sel_distinct q \<and> ''*'' \<notin> set (sel_columns q) \<and>
      [c \<leftarrow> map fst (sel_order_by q). c \<notin> set (sel_columns q)] \<noteq> [])"

text \<open>
  \<open>cursor.execute\<close> against PostgreSQL: \<open>run\<close> is what the server does with a
  statement that passes the analysis.
\<close>

definition postgres_execute ::
  "(statement \<Rightarrow> sql_value list \<Rightarrow> exn + sql_value list list) \<Rightarrow>
   statement \<Rightarrow> sql_value list \<Rightarrow> exn + sql_value list list" where
  "postgres_execute run stmt params =
     (case stmt of
        Select q \<Rightarrow>
          if order_by_outside_select_list q
          then Inl (Exn ''InvalidColumnReference''
                 ''for SELECT DISTINCT, ORDER BY expressions must appear in select list'')
          else run stmt params
      | InsertInto tbl cols \<Rightarrow> run stmt params)"

section \<open>Predicates on records\<close>

text \<open>A record as the scrape builds it: the three keys are present.\<close>

definition scraped_record :: "book \<Rightarrow> bool" where
  "scraped_record book =
     (book ''title'' \<noteq> None \<and> book ''price'' \<noteq> None \<and> book ''availability'' \<noteq> None)"

text \<open>The price of the record is present and \<open>parse_price\<close> raises on it.\<close>

definition price_fails_to_parse :: "book \<Rightarrow> bool" where
  "price_fails_to_parse book =
     (case book ''price'' of None \<Rightarrow> False | Some price_str \<Rightarrow> isl (parse_price price_str))"

text \<open>
  A record the transform counts in stock: its price is present and parses, and its
  availability is present and contains \<open>In stock\<close>.
\<close>

definition in_stock_record :: "book \<Rightarrow> bool" where
  "in_stock_record book =
     (case book ''price'' of
        None \<Rightarrow> False
      | Some price_str \<Rightarrow>
          \<not> isl (transform_price price_str) \<and>
          (case book ''availability'' of
             None \<Rightarrow> False
           | Some avail \<Rightarrow> str_contains ''In stock'' avail))"

section \<open>The float model on known values\<close>

text \<open>
  Values Python gives for the same expressions: \<open>(0.1).as_integer_ratio()\<close> is
  3602879701896397 / 2 ^ 55, which is 7205759403792794 / 2 ^ 56; \<open>0.1 + 0.2\<close> is
  the float above \<open>0.3\<close>; \<open>round(2.675, 2)\<close> is \<open>2.67\<close> and \<open>round(0.125, 2)\<close> is
  \<open>0.12\<close>; \<open>10.0 * 1.27\<close> is a tie and rounds to \<open>12.7\<close>.
\<close>

lemma float_model_examples:
  "dec 1 1 = Finite 7205759403792794 (- 56) \<and>
   float_add (dec 1 1) (dec 2 1) = Finite 5404319552844596 (- 54) \<and>
   dec 3 1 = Finite 5404319552844595 (- 54) \<and>
   float_round2 (dec 2675 3) = dec 267 2 \<and>
   float_round2 (dec 125 3) = dec 12 2 \<and>
   float_mul (dec 10 0) (dec 127 2) = dec 127 1"
  by code_simp

section \<open>Lemmas on strings\<close>

lemma str_replace_single: "str_replace s [c] [] = filter (\<lambda>x. x \<noteq> c) s"
proof (induction s)
  case Nil
  show ?case by (simp add: str_replace.simps)
next
  case (Cons x xs)
  show ?case
  proof (cases "x = c")
    case True
    then show ?thesis using Cons by (subst str_replace.simps) simp
  next
    case False
    then show ?thesis using Cons by (subst str_replace.simps) simp
  qed
qed

lemma str_replace_absent:
  assumes "hd old \<notin> set s" "old \<noteq> []"
  shows "str_replace s old [] = s"
  using assms
proof (induction s)
  case Nil
  then show ?case by (simp add: str_replace.simps)
next
  case (Cons x xs)
  have np: "\<not> prefix old (x # xs)"
  proof
    assume "prefix old (x # xs)"
    then have "hd old = x" using Cons.prems(2) by (cases old) auto
    then show False using Cons.prems(1) by simp
  qed
  have "str_replace xs old [] = xs" using Cons by simp
  then show ?case using np Cons.prems(2) by (subst str_replace.simps) simp
qed

lemma str_replace_prefix:
  "old \<noteq> [] \<Longrightarrow> str_replace (old @ s) old [] = str_replace s old []"
  by (subst str_replace.simps) simp

lemma filter_absent: "c \<notin> set d \<Longrightarrow> filter (\<lambda>x. x \<noteq> c) d = d"
  by (induction d) auto

lemma parse_price_prefixed:
  assumes "pound \<notin> set d" "a_circ \<notin> set d"
  shows "parse_price (pound # d) = py_float (str_strip d)"
    and "parse_price (a_circ # pound # d) = py_float (str_strip d)"
  using assms by (simp_all add: parse_price_def str_replace_single filter_absent)

lemma transform_price_prefixed:
  assumes "pound \<notin> set d" "a_circ \<notin> set d"
  shows "transform_price (pound # d) = py_float (str_strip d)"
    and "transform_price (a_circ # pound # d) = py_float (str_strip d)"
proof -
  have ne: "pound \<noteq> a_circ" by (simp add: pound_def a_circ_def)
  have "a_circ \<notin> set (pound # d)" using assms ne by auto
  then have a: "str_replace (pound # d) [a_circ, pound] [] = pound # d"
    by (intro str_replace_absent) simp_all
  have "str_replace ([a_circ, pound] @ d) [a_circ, pound] [] = str_replace d [a_circ, pound] []"
    by (rule str_replace_prefix) simp
  moreover have "str_replace d [a_circ, pound] [] = d"
    using assms by (intro str_replace_absent) simp_all
  ultimately have b: "str_replace (a_circ # pound # d) [a_circ, pound] [] = d" by simp
  have c: "filter (\<lambda>x. x \<noteq> pound) d = d" using assms by (simp add: filter_absent)
  show "transform_price (pound # d) = py_float (str_strip d)"
    by (simp add: transform_price_def a str_replace_single c)
  show "transform_price (a_circ # pound # d) = py_float (str_strip d)"
    by (simp add: transform_price_def b str_replace_single c)
qed

section \<open>The transform on the scenario of the specification\<close>

text \<open>
  Claim C1. For the raw list of book A (price 10.00 with the pound sign, in stock)
  and book B (price 5.00, out of stock), \<open>transform_data\<close> returns one processed
  record, for A, with \<open>price_gbp\<close> 10.0, \<open>price_usd\<close> 12.7 and \<open>price_eur\<close> 11.7 (the
  floats those literals denote), and a summary with \<open>total_books_raw\<close> 2,
  \<open>books_in_stock\<close> 1, \<open>books_out_of_stock\<close> 1 and \<open>total_inventory_value_gbp\<close> 10.0:
  B is dropped from the list and counted in the summary. With the same multipliers
  a price of 20.00 gives 25.4 and 23.4.
\<close>

theorem transform_data_scenario:
  "transform_data clk reads
     [[''title'' \<mapsto> ''A'', ''price'' \<mapsto> pound # ''10.00'',
       ''availability'' \<mapsto> ''In stock (3 available)''],
      [''title'' \<mapsto> ''B'', ''price'' \<mapsto> pound # ''5.00'',
       ''availability'' \<mapsto> ''Out of stock'']]
   = Inr ([\<lparr>title = ''A'', price_gbp = dec 1000 2, price_usd = dec 1270 2,
             price_eur = dec 1170 2, in_stock = True,
             availability = ''In stock (3 available)'',
             processed_at = isoformat clk reads\<rparr>],
          \<lparr>date = strftime_date clk (reads + 1), total_books_raw = 2,
           books_in_stock = 1, books_out_of_stock = 1,
           total_inventory_value_gbp = PyFloat (dec 1000 2),
           total_inventory_value_usd = PyFloat (dec 1270 2),
           average_price_gbp = PyFloat (dec 1000 2),
           summary_processed_at = isoformat clk (reads + 2)\<rparr>)
   \<and> map (\<lambda>b. (price_gbp b, price_usd b, price_eur b))
         (case transform_data clk reads
                 [[''title'' \<mapsto> ''C'', ''price'' \<mapsto> pound # ''20.00'',
                   ''availability'' \<mapsto> ''In stock'']] of
            Inr r \<Rightarrow> fst r
          | Inl e \<Rightarrow> [])
       = [(dec 2000 2, dec 2540 2, dec 2340 2)]"
proof (intro conjI)
  show "transform_data clk reads
     [[''title'' \<mapsto> ''A'', ''price'' \<mapsto> pound # ''10.00'',
       ''availability'' \<mapsto> ''In stock (3 available)''],
      [''title'' \<mapsto> ''B'', ''price'' \<mapsto> pound # ''5.00'',
       ''availability'' \<mapsto> ''Out of stock'']]
   = Inr ([\<lparr>title = ''A'', price_gbp = dec 1000 2, price_usd = dec 1270 2,
             price_eur = dec 1170 2, in_stock = True,
             availability = ''In stock (3 available)'',
             processed_at = isoformat clk reads\<rparr>],
          \<lparr>date = strftime_date clk (reads + 1), total_books_raw = 2,
           books_in_stock = 1, books_out_of_stock = 1,
           total_inventory_value_gbp = PyFloat (dec 1000 2),
           total_inventory_value_usd = PyFloat (dec 1270 2),
           average_price_gbp = PyFloat (dec 1000 2),
           summary_processed_at = isoformat clk (reads + 2)\<rparr>)"
    apply code_simp
    apply simp
    done
next
  show "map (\<lambda>b. (price_gbp b, price_usd b, price_eur b))
         (case transform_data clk reads
                 [[''title'' \<mapsto> ''C'', ''price'' \<mapsto> pound # ''20.00'',
                   ''availability'' \<mapsto> ''In stock'']] of
            Inr r \<Rightarrow> fst r
          | Inl e \<Rightarrow> [])
       = [(dec 2000 2, dec 2540 2, dec 2340 2)]"
    by code_simp
qed

section \<open>Price parsing in the two jobs\<close>

text \<open>
  Claim C2. For every price text \<open>d\<close> that contains neither of the two symbol
  characters, the Collector's \<open>parse_price\<close> and the Reconciler's inline extraction
  both strip the pound sign and the mis-encoded two-character prefix, and all four
  results are \<open>float\<close> of the stripped text. With the text 51.77 all four are the
  float 51.77.
\<close>

theorem price_parsing_strips_both_prefixes:
  "(pound \<notin> set d \<and> a_circ \<notin> set d \<longrightarrow>
      parse_price (pound # d) = py_float (str_strip d) \<and>
      parse_price (a_circ # pound # d) = py_float (str_strip d) \<and>
      transform_price (pound # d) = py_float (str_strip d) \<and>
      transform_price (a_circ # pound # d) = py_float (str_strip d))
   \<and> parse_price (pound # ''51.77'') = Inr (dec 5177 2)
   \<and> parse_price (a_circ # pound # ''51.77'') = Inr (dec 5177 2)
   \<and> transform_price (pound # ''51.77'') = Inr (dec 5177 2)
   \<and> transform_price (a_circ # pound # ''51.77'') = Inr (dec 5177 2)"
proof (intro conjI impI)
  assume h: "pound \<notin> set d \<and> a_circ \<notin> set d"
  show "parse_price (pound # d) = py_float (str_strip d)"
    using h parse_price_prefixed(1) by blast
  show "parse_price (a_circ # pound # d) = py_float (str_strip d)"
    using h parse_price_prefixed(2) by blast
  show "transform_price (pound # d) = py_float (str_strip d)"
    using h transform_price_prefixed(1) by blast
  show "transform_price (a_circ # pound # d) = py_float (str_strip d)"
    using h transform_price_prefixed(2) by blast
next
  show "parse_price (pound # ''51.77'') = Inr (dec 5177 2)" by code_simp
  show "parse_price (a_circ # pound # ''51.77'') = Inr (dec 5177 2)" by code_simp
  show "transform_price (pound # ''51.77'') = Inr (dec 5177 2)" by code_simp
  show "transform_price (a_circ # pound # ''51.77'') = Inr (dec 5177 2)" by code_simp
qed

theorem price_parsing_witness:
  "pound \<notin> set ''51.77'' \<and> a_circ \<notin> set ''51.77'' \<and>
   parse_price (pound # ''51.77'') = py_float (str_strip ''51.77'') \<and>
   parse_price (a_circ # pound # ''51.77'') = py_float (str_strip ''51.77'') \<and>
   transform_price (pound # ''51.77'') = py_float (str_strip ''51.77'') \<and>
   transform_price (a_circ # pound # ''51.77'') = py_float (str_strip ''51.77'') \<and>
   py_float (str_strip ''51.77'') = Inr (dec 5177 2)"
proof -
  have h: "pound \<notin> set ''51.77'' \<and> a_circ \<notin> set ''51.77''" by code_simp
  have v: "py_float (str_strip ''51.77'') = Inr (dec 5177 2)" by code_simp
  show ?thesis
    using h v price_parsing_strips_both_prefixes [of "''51.77''"] by blast
qed

section \<open>The staging insert of the Collector\<close>

lemma length_build_batch_data:
  "length (build_batch_data books run_date batch_id batch_data) =
     length batch_data + length (filter (\<lambda>b. \<not> isl (staging_row b run_date batch_id)) books)"
proof (induction books arbitrary: batch_data)
  case Nil
  show ?case by simp
next
  case (Cons b bs)
  show ?case
  proof (cases "staging_row b run_date batch_id")
    case (Inl e)
    then show ?thesis using Cons [of batch_data] by simp
  next
    case (Inr row)
    then show ?thesis using Cons [of "batch_data @ [row]"] by simp
  qed
qed

lemma staging_row_scraped:
  assumes "scraped_record book"
  shows "isl (staging_row book run_date batch_id) = price_fails_to_parse book"
proof -
  obtain t p a where f: "book ''title'' = Some t" "book ''price'' = Some p"
      "book ''availability'' = Some a"
    using assms by (auto simp: scraped_record_def)
  show ?thesis
    by (cases "parse_price p")
       (simp_all add: staging_row_def dict_get_def price_fails_to_parse_def f)
qed

lemma length_filter_complement:
  "int (length (filter (\<lambda>x. \<not> P x) xs)) = int (length xs) - int (length (filter P xs))"
  by (induction xs) auto

lemma length_batch_data_scraped:
  assumes "list_all scraped_record books"
  shows "int (length (build_batch_data books run_date batch_id [])) =
           int (length books) - int (length (filter price_fails_to_parse books))"
proof -
  have "filter (\<lambda>b. \<not> isl (staging_row b run_date batch_id)) books =
          filter (\<lambda>b. \<not> price_fails_to_parse b) books"
    using assms by (intro filter_cong) (auto simp: list_all_iff staging_row_scraped)
  then show ?thesis
    by (simp add: length_build_batch_data length_filter_complement)
qed

text \<open>
  Claim C3. For a list of records as the scrape builds them, \<open>save_to_rds\<close> returns
  the number of records minus the number of records whose price fails to parse,
  whenever the database calls succeed; and when it raises, the exception is one the
  database raised (from \<open>get_db_connection\<close>, \<open>cursor\<close>, \<open>executemany\<close>, \<open>commit\<close>
  or \<open>rollback\<close>): a price that fails to parse is skipped and never ends the insert.
\<close>

theorem save_to_rds_count:
  assumes "list_all scraped_record books"
  shows "(connect_failure db = None \<and> cursor_failure db = None \<and>
          executemany_failure db insert_query
            (map row_parameters (build_batch_data books run_date batch_id [])) = None \<and>
          commit_failure db = None \<longrightarrow>
            fst (save_to_rds db books run_date s3_key batch_id) =
              Inr (int (length books) - int (length (filter price_fails_to_parse books))))
       \<and> (\<forall>e. fst (save_to_rds db books run_date s3_key batch_id) = Inl e \<longrightarrow>
            Some e \<in> {connect_failure db, cursor_failure db,
                       executemany_failure db insert_query
                         (map row_parameters (build_batch_data books run_date batch_id [])),
                       commit_failure db, rollback_failure db})"
proof (intro conjI impI allI)
  assume "connect_failure db = None \<and> cursor_failure db = None \<and>
          executemany_failure db insert_query
            (map row_parameters (build_batch_data books run_date batch_id [])) = None \<and>
          commit_failure db = None"
  then show "fst (save_to_rds db books run_date s3_key batch_id) =
              Inr (int (length books) - int (length (filter price_fails_to_parse books)))"
    using length_batch_data_scraped [OF assms, of run_date batch_id]
    by (simp add: save_to_rds_def Let_def)
next
  fix e
  assume "fst (save_to_rds db books run_date s3_key batch_id) = Inl e"
  then show "Some e \<in> {connect_failure db, cursor_failure db,
                       executemany_failure db insert_query
                         (map row_parameters (build_batch_data books run_date batch_id [])),
                       commit_failure db, rollback_failure db}"
    by (auto simp: save_to_rds_def Let_def rollback_and_raise_def split: option.splits)
qed

theorem save_to_rds_count_witness:
  "list_all scraped_record
     [[''title'' \<mapsto> ''A'', ''price'' \<mapsto> pound # ''10.00'', ''availability'' \<mapsto> ''In stock''],
      [''title'' \<mapsto> ''B'', ''price'' \<mapsto> ''free'', ''availability'' \<mapsto> ''In stock'']]
   \<and> length (filter price_fails_to_parse
       [[''title'' \<mapsto> ''A'', ''price'' \<mapsto> pound # ''10.00'', ''availability'' \<mapsto> ''In stock''],
        [''title'' \<mapsto> ''B'', ''price'' \<mapsto> ''free'', ''availability'' \<mapsto> ''In stock'']]) = 1
   \<and> fst (save_to_rds
        \<lparr>connect_failure = None, cursor_failure = None, execute_result = (\<lambda>q ps. Inr []),
         executemany_failure = (\<lambda>q rows. None), commit_failure = None,
         rollback_failure = None\<rparr>
        [[''title'' \<mapsto> ''A'', ''price'' \<mapsto> pound # ''10.00'', ''availability'' \<mapsto> ''In stock''],
         [''title'' \<mapsto> ''B'', ''price'' \<mapsto> ''free'', ''availability'' \<mapsto> ''In stock'']]
        ''2026-02-03'' ''raw/books/date=2026-02-03/books.json'' ''extract_2026-02-03_080512'')
     = Inr 1"
proof -
  let ?books = "[[''title'' \<mapsto> ''A'', ''price'' \<mapsto> pound # ''10.00'',
                  ''availability'' \<mapsto> ''In stock''],
                 [''title'' \<mapsto> ''B'', ''price'' \<mapsto> ''free'',
                  ''availability'' \<mapsto> ''In stock'']] :: book list"
  let ?db = "\<lparr>connect_failure = None, cursor_failure = None, execute_result = (\<lambda>q ps. Inr []),
              executemany_failure = (\<lambda>q rows. None), commit_failure = None,
              rollback_failure = None\<rparr>"
  have h: "list_all scraped_record ?books" by code_simp
  have n: "length (filter price_fails_to_parse ?books) = 1" by code_simp
  have "fst (save_to_rds ?db ?books ''2026-02-03'' ''raw/books/date=2026-02-03/books.json''
               ''extract_2026-02-03_080512'') = Inr (int (length ?books) - int 1)"
    using save_to_rds_count [OF h, of ?db "''2026-02-03''" "''extract_2026-02-03_080512''"
        "''raw/books/date=2026-02-03/books.json''"] n
    by simp
  then show ?thesis using h n by simp
qed

section \<open>The loop of the transform\<close>

lemma transform_book_in_stock_count:
  "in_stock_count (transform_book clk book st) =
     in_stock_count st + (if in_stock_record book then 1 else 0)"
  by (simp add: transform_book_def in_stock_record_def dict_get_def Let_def
           split: option.split sum.split)

lemma transform_book_total_unchanged:
  "\<not> in_stock_record book \<Longrightarrow>
     total_value_gbp (transform_book clk book st) = total_value_gbp st"
  by (auto simp: transform_book_def in_stock_record_def dict_get_def Let_def
           split: option.splits sum.splits)

lemma foldl_in_stock_count:
  "in_stock_count (foldl (\<lambda>st book. transform_book clk book st) st books) =
     in_stock_count st + int (length (filter in_stock_record books))"
  by (induction books arbitrary: st) (simp_all add: transform_book_in_stock_count)

lemma foldl_total_unchanged:
  "filter in_stock_record books = [] \<Longrightarrow>
     total_value_gbp (foldl (\<lambda>st book. transform_book clk book st) st books) =
       total_value_gbp st"
proof (induction books arbitrary: st)
  case Nil
  show ?case by simp
next
  case (Cons b bs)
  from Cons.prems have nb: "\<not> in_stock_record b" and rest: "filter in_stock_record bs = []"
    by (auto split: if_splits)
  show ?case
    using Cons.IH [OF rest, of "transform_book clk b st"]
    by (simp add: transform_book_total_unchanged [OF nb])
qed

lemma transform_loop_in_stock_count:
  "in_stock_count (transform_loop clk reads raw_data) =
     int (length (filter in_stock_record raw_data))"
  by (simp add: transform_loop_def foldl_in_stock_count)

lemma transform_loop_total_zero:
  "filter in_stock_record raw_data = [] \<Longrightarrow>
     total_value_gbp (transform_loop clk reads raw_data) = PyInt 0"
  by (simp add: transform_loop_def foldl_total_unchanged)

lemma num_mul_zero: "num_mul (PyInt 0) y = Inr (float_mul (Finite 0 (- 1074)) y)"
  by (simp add: num_mul_def to_float_def float_of_int_def round_to_float_def)

text \<open>
  Claim C4. For every raw input in which no record is counted in stock,
  \<open>transform_data\<close> returns (it raises nothing, so no division by zero), the
  in-stock count of the summary is 0 and its average price is the integer 0.
\<close>

theorem average_price_zero_without_stock:
  assumes "filter in_stock_record raw_data = []"
  shows "\<exists>procd s. transform_data clk reads raw_data = Inr (procd, s) \<and>
           books_in_stock s = 0 \<and> average_price_gbp s = PyInt 0"
proof -
  have c: "in_stock_count (transform_loop clk reads raw_data) = 0"
    using assms by (simp add: transform_loop_in_stock_count)
  have t: "total_value_gbp (transform_loop clk reads raw_data) = PyInt 0"
    using assms by (rule transform_loop_total_zero)
  show ?thesis
    by (simp add: transform_data_def make_summary_def Let_def c t num_mul_zero)
qed

theorem average_price_zero_witness:
  "filter in_stock_record
     [[''title'' \<mapsto> ''B'', ''price'' \<mapsto> pound # ''5.00'', ''availability'' \<mapsto> ''Out of stock''],
      [''title'' \<mapsto> ''D'', ''price'' \<mapsto> ''n/a'', ''availability'' \<mapsto> ''In stock'']] = []
   \<and> (\<exists>procd s.
        transform_data
          \<lparr>isoformat = (\<lambda>n. ''2026-02-04T00:00:00''), strftime_date = (\<lambda>n. ''2026-02-04''),
           strftime_stamp = (\<lambda>n. ''2026-02-04_000000''),
           elapsed_seconds = (\<lambda>i j. dec 0 0)\<rparr> 1
          [[''title'' \<mapsto> ''B'', ''price'' \<mapsto> pound # ''5.00'', ''availability'' \<mapsto> ''Out of stock''],
           [''title'' \<mapsto> ''D'', ''price'' \<mapsto> ''n/a'', ''availability'' \<mapsto> ''In stock'']]
          = Inr (procd, s) \<and>
        books_in_stock s = 0 \<and> average_price_gbp s = PyInt 0)"
proof -
  have h: "filter in_stock_record
     [[''title'' \<mapsto> ''B'', ''price'' \<mapsto> pound # ''5.00'', ''availability'' \<mapsto> ''Out of stock''],
      [''title'' \<mapsto> ''D'', ''price'' \<mapsto> ''n/a'', ''availability'' \<mapsto> ''In stock'']] = []"
    by code_simp
  show ?thesis
    using h average_price_zero_without_stock [OF h,
        of "\<lparr>isoformat = (\<lambda>n. ''2026-02-04T00:00:00''),
            strftime_date = (\<lambda>n. ''2026-02-04''),
            strftime_stamp = (\<lambda>n. ''2026-02-04_000000''),
            elapsed_seconds = (\<lambda>i j. dec 0 0)\<rparr>" 1]
    by blast
qed

section \<open>The in-stock test of the two jobs\<close>

lemma staging_row_flag:
  assumes "book ''availability'' = Some avail" "staging_row book run_date batch_id = Inr row"
  shows "fst (snd (snd (snd row))) = str_contains ''In stock'' avail"
  using assms
  by (auto simp: staging_row_def dict_get_def Let_def split: option.splits sum.splits)

lemma transform_book_classifies:
  assumes "book ''availability'' = Some avail" "book ''price'' = Some price_str"
    "transform_price price_str = Inr v"
  shows "in_stock_count (transform_book clk book st) =
           in_stock_count st + (if str_contains ''In stock'' avail then 1 else 0)"
    and "out_of_stock_count (transform_book clk book st) =
           out_of_stock_count st + (if str_contains ''In stock'' avail then 0 else 1)"
  using assms
  by (simp_all add: transform_book_def dict_get_def Let_def split: option.split sum.split)

text \<open>
  Claim C10. Both jobs test the availability text with the same case-sensitive
  substring test for \<open>In stock\<close>: for every record with an availability text, the
  flag in the tuple the Collector builds (when it builds one) is that test, and
  the Reconciler (when the price parses) counts the record in stock exactly when
  the test holds and out of stock otherwise. A text with a lowercase \<open>in stock\<close>
  fails the test.
\<close>

theorem in_stock_test_agrees:
  assumes "book ''availability'' = Some avail"
  shows "(staging_row book run_date batch_id = Inr row \<longrightarrow>
            fst (snd (snd (snd row))) = str_contains ''In stock'' avail)
       \<and> (book ''price'' = Some price_str \<and> transform_price price_str = Inr v \<longrightarrow>
            in_stock_count (transform_book clk book st) =
              in_stock_count st + (if str_contains ''In stock'' avail then 1 else 0) \<and>
            out_of_stock_count (transform_book clk book st) =
              out_of_stock_count st + (if str_contains ''In stock'' avail then 0 else 1))
       \<and> str_contains ''In stock'' ''in stock (3 available)'' = False"
proof (intro conjI impI)
  assume "staging_row book run_date batch_id = Inr row"
  then show "fst (snd (snd (snd row))) = str_contains ''In stock'' avail"
    using assms staging_row_flag by blast
next
  assume p: "book ''price'' = Some price_str \<and> transform_price price_str = Inr v"
  show "in_stock_count (transform_book clk book st) =
          in_stock_count st + (if str_contains ''In stock'' avail then 1 else 0)"
    using assms p transform_book_classifies(1) by blast
  show "out_of_stock_count (transform_book clk book st) =
          out_of_stock_count st + (if str_contains ''In stock'' avail then 0 else 1)"
    using assms p transform_book_classifies(2) by blast
next
  show "str_contains ''In stock'' ''in stock (3 available)'' = False" by code_simp
qed

theorem in_stock_test_witness:
  "[''title'' \<mapsto> ''A'', ''price'' \<mapsto> pound # ''10.00'',
    ''availability'' \<mapsto> ''In stock (3 available)''] ''availability''
     = Some ''In stock (3 available)''
   \<and> staging_row [''title'' \<mapsto> ''A'', ''price'' \<mapsto> pound # ''10.00'',
                   ''availability'' \<mapsto> ''In stock (3 available)'']
        ''2026-02-03'' ''extract_2026-02-03_080512''
     = Inr (''A'', dec 1000 2, ''In stock (3 available)'', True, ''2026-02-03'',
            ''extract_2026-02-03_080512'')
   \<and> str_contains ''In stock'' ''In stock (3 available)''
   \<and> in_stock_count
        (transform_book
           \<lparr>isoformat = (\<lambda>n. ''2026-02-04T00:00:00''), strftime_date = (\<lambda>n. ''2026-02-04''),
            strftime_stamp = (\<lambda>n. ''2026-02-04_000000''),
            elapsed_seconds = (\<lambda>i j. dec 0 0)\<rparr>
           [''title'' \<mapsto> ''A'', ''price'' \<mapsto> pound # ''10.00'',
            ''availability'' \<mapsto> ''In stock (3 available)'']
           \<lparr>processed = [], total_value_gbp = PyInt 0, in_stock_count = 0,
            out_of_stock_count = 0, clock_reads = 0\<rparr>) = 1"
proof -
  let ?b = "[''title'' \<mapsto> ''A'', ''price'' \<mapsto> pound # ''10.00'',
             ''availability'' \<mapsto> ''In stock (3 available)''] :: book"
  let ?row = "(''A'', dec 1000 2, ''In stock (3 available)'', True, ''2026-02-03'',
               ''extract_2026-02-03_080512'') :: staging_tuple"
  let ?clk = "\<lparr>isoformat = (\<lambda>n. ''2026-02-04T00:00:00''),
               strftime_date = (\<lambda>n. ''2026-02-04''),
               strftime_stamp = (\<lambda>n. ''2026-02-04_000000''),
               elapsed_seconds = (\<lambda>i j. dec 0 0)\<rparr>"
  let ?st = "\<lparr>processed = [], total_value_gbp = PyInt 0, in_stock_count = 0,
              out_of_stock_count = 0, clock_reads = 0\<rparr>"
  have a: "?b ''availability'' = Some ''In stock (3 available)''" by simp
  have r: "staging_row ?b ''2026-02-03'' ''extract_2026-02-03_080512'' = Inr ?row"
    by code_simp
  have p: "?b ''price'' = Some (pound # ''10.00'') \<and>
           transform_price (pound # ''10.00'') = Inr (dec 1000 2)"
    by code_simp
  have c: "str_contains ''In stock'' ''In stock (3 available)''" by code_simp
  have "in_stock_count (transform_book ?clk ?b ?st) = in_stock_count ?st + 1"
    using in_stock_test_agrees [where book = ?b and avail = "''In stock (3 available)''"
          and price_str = "pound # ''10.00''" and v = "dec 1000 2" and clk = ?clk and st = ?st]
      a p c
    by simp
  then show ?thesis using a r c by simp
qed

section \<open>The handlers and the stages of the Reconciler\<close>

text \<open>
  Claim C5. When the connectivity check passes and the scrape returns an empty
  list, the Collector's handler raises the exception of the emptiness check (the
  \<open>Exception\<close> with the message "No books scraped ...", which the specification
  calls \<open>EmptyResultError\<close>) and has made no call to the object store or to the
  database: the trace is empty, so there is no \<open>PutObject\<close> and no \<open>ExecuteMany\<close>.
\<close>

theorem empty_scrape_fails_before_writes:
  assumes "c_test_connection env" "c_scrape_books env = Inr []"
  shows "extract_lambda_handler env =
           (Inl (Exn ''Exception'' ''No books scraped - possible website structure change''), [])"
  using assms by (simp add: extract_lambda_handler_def extract_try_def Let_def)

theorem empty_scrape_witness:
  "c_test_connection
     \<lparr>c_clock = \<lparr>isoformat = (\<lambda>n. ''2026-02-03T08:05:12''),
                 strftime_date = (\<lambda>n. ''2026-02-03''),
                 strftime_stamp = (\<lambda>n. ''2026-02-03_080512''),
                 elapsed_seconds = (\<lambda>i j. dec 0 0)\<rparr>,
      c_test_connection = True, c_scrape_books = Inr [],
      c_storage = \<lparr>get_object = (\<lambda>k. NoSuchKey), put_object_failure = (\<lambda>k. None)\<rparr>,
      c_database = \<lparr>connect_failure = None, cursor_failure = None, execute_result = (\<lambda>q ps. Inr []),
                     executemany_failure = (\<lambda>q rows. None), commit_failure = None,
                     rollback_failure = None\<rparr>\<rparr>
   \<and> extract_lambda_handler
     \<lparr>c_clock = \<lparr>isoformat = (\<lambda>n. ''2026-02-03T08:05:12''),
                 strftime_date = (\<lambda>n. ''2026-02-03''),
                 strftime_stamp = (\<lambda>n. ''2026-02-03_080512''),
                 elapsed_seconds = (\<lambda>i j. dec 0 0)\<rparr>,
      c_test_connection = True, c_scrape_books = Inr [],
      c_storage = \<lparr>get_object = (\<lambda>k. NoSuchKey), put_object_failure = (\<lambda>k. None)\<rparr>,
      c_database = \<lparr>connect_failure = None, cursor_failure = None, execute_result = (\<lambda>q ps. Inr []),
                     executemany_failure = (\<lambda>q rows. None), commit_failure = None,
                     rollback_failure = None\<rparr>\<rparr>
     = (Inl (Exn ''Exception'' ''No books scraped - possible website structure change''), [])"
proof -
  let ?env = "\<lparr>c_clock = \<lparr>isoformat = (\<lambda>n. ''2026-02-03T08:05:12''),
                 strftime_date = (\<lambda>n. ''2026-02-03''),
                 strftime_stamp = (\<lambda>n. ''2026-02-03_080512''),
                 elapsed_seconds = (\<lambda>i j. dec 0 0)\<rparr>,
      c_test_connection = True, c_scrape_books = Inr [],
      c_storage = \<lparr>get_object = (\<lambda>k. NoSuchKey), put_object_failure = (\<lambda>k. None)\<rparr>,
      c_database = \<lparr>connect_failure = None, cursor_failure = None, execute_result = (\<lambda>q ps. Inr []),
                     executemany_failure = (\<lambda>q rows. None), commit_failure = None,
                     rollback_failure = None\<rparr>\<rparr>"
  have a: "c_test_connection ?env" by simp
  have b: "c_scrape_books ?env = Inr []" by simp
  show ?thesis using a empty_scrape_fails_before_writes [OF a b] by simp
qed

text \<open>
  Claim C6. When \<open>get_object\<close> raises \<open>NoSuchKey\<close> for the raw key of the run date,
  \<open>read_from_s3\<close> raises the \<open>Exception\<close> with the message "Raw data file not found:"
  and the key (the specification's \<open>MissingUpstreamError\<close>). Any other exception of
  the store is raised again unchanged, so the two differ whenever the store's
  exception is of a class other than \<open>Exception\<close> itself.
\<close>

theorem read_from_s3_missing_object:
  "(get_object s3 (''raw/books/date='' @ run_date @ ''/books.json'') = NoSuchKey \<longrightarrow>
      fst (read_from_s3 s3 run_date) =
        Inl (Exn ''Exception''
               (''Raw data file not found: '' @ ''raw/books/date='' @ run_date @ ''/books.json'')))
   \<and> (get_object s3 (''raw/books/date='' @ run_date @ ''/books.json'') = GetFailed e \<longrightarrow>
        fst (read_from_s3 s3 run_date) = Inl e)
   \<and> (exn_type e \<noteq> ''Exception'' \<longrightarrow>
        e \<noteq> Exn ''Exception''
               (''Raw data file not found: '' @ ''raw/books/date='' @ run_date @ ''/books.json''))"
  by (auto simp: read_from_s3_def Let_def)

theorem read_from_s3_missing_witness:
  "get_object \<lparr>get_object = (\<lambda>k. NoSuchKey), put_object_failure = (\<lambda>k. None)\<rparr>
       (''raw/books/date='' @ ''2026-02-04'' @ ''/books.json'') = NoSuchKey
   \<and> fst (read_from_s3 \<lparr>get_object = (\<lambda>k. NoSuchKey), put_object_failure = (\<lambda>k. None)\<rparr>
             ''2026-02-04'')
       = Inl (Exn ''Exception''
                ''Raw data file not found: raw/books/date=2026-02-04/books.json'')
   \<and> exn_type (Exn ''ClientError'' ''An error occurred (AccessDenied)'') \<noteq> ''Exception''
   \<and> Exn ''ClientError'' ''An error occurred (AccessDenied)'' \<noteq>
       Exn ''Exception'' ''Raw data file not found: raw/books/date=2026-02-04/books.json''"
proof -
  let ?s3 = "\<lparr>get_object = (\<lambda>k. NoSuchKey), put_object_failure = (\<lambda>k. None)\<rparr>"
  have a: "get_object ?s3 (''raw/books/date='' @ ''2026-02-04'' @ ''/books.json'') = NoSuchKey"
    by simp
  show ?thesis
    using a read_from_s3_missing_object
      [of ?s3 "''2026-02-04''" "Exn ''ClientError'' ''An error occurred (AccessDenied)''"]
    by simp
qed

text \<open>
  Claim C8. With a connection and a cursor obtained, \<open>execute_cdc_batch_processing\<close>
  executes the call of \<open>process_cdc_batch\<close> with the parameters (batch id, run date)
  in this order. When the result has a first row of five values and the commit succeeds,
  the five fields of the result are those values in the order new, removed, price
  changes, stock changes, total processed. When the result has no row, it calls
  \<open>rollback\<close> and then raises the \<open>Exception\<close> with the message "CDC stored procedure
  returned no results" (the specification's \<open>ReconciliationError\<close>), unless the
  rollback raises an exception of its own.
\<close>

theorem cdc_result_matches_row:
  assumes "connect_failure db = None" "cursor_failure db = None"
  shows "(execute_result db cdc_query [batch_id, SqlText run_date]
            = Inr ([v1, v2, v3, v4, v5] # rest) \<and> commit_failure db = None \<longrightarrow>
          execute_cdc_batch_processing db batch_id run_date =
            (Inr \<lparr>new_books = v1, removed_books = v2, price_changes = v3,
                  stock_changes = v4, total_processed = v5\<rparr>,
             [Connect, Cursor, Execute cdc_query [batch_id, SqlText run_date], Commit,
              ReturnConnection]))
       \<and> (execute_result db cdc_query [batch_id, SqlText run_date] = Inr [] \<longrightarrow>
          execute_cdc_batch_processing db batch_id run_date =
            (Inl (case rollback_failure db of
                    Some r \<Rightarrow> r
                  | None \<Rightarrow> Exn ''Exception'' ''CDC stored procedure returned no results''),
             [Connect, Cursor, Execute cdc_query [batch_id, SqlText run_date], Rollback,
              ReturnConnection]))"
  using assms
  by (simp add: execute_cdc_batch_processing_def fetchone_def rollback_and_raise_def Let_def)

theorem cdc_result_witness:
  "connect_failure
     \<lparr>connect_failure = None, cursor_failure = None,
      execute_result = (\<lambda>q ps. Inr [[SqlInt 5, SqlInt 0, SqlInt 3, SqlInt 2, SqlInt 20]]),
      executemany_failure = (\<lambda>q rows. None), commit_failure = None,
      rollback_failure = None\<rparr> = None
   \<and> execute_cdc_batch_processing
        \<lparr>connect_failure = None, cursor_failure = None,
         execute_result = (\<lambda>q ps. Inr [[SqlInt 5, SqlInt 0, SqlInt 3, SqlInt 2, SqlInt 20]]),
         executemany_failure = (\<lambda>q rows. None), commit_failure = None,
         rollback_failure = None\<rparr>
        (SqlText ''extract_2026-02-03_080512'') ''2026-02-03''
      = (Inr \<lparr>new_books = SqlInt 5, removed_books = SqlInt 0, price_changes = SqlInt 3,
              stock_changes = SqlInt 2, total_processed = SqlInt 20\<rparr>,
         [Connect, Cursor,
          Execute cdc_query [SqlText ''extract_2026-02-03_080512'', SqlText ''2026-02-03''],
          Commit, ReturnConnection])
   \<and> connect_failure
     \<lparr>connect_failure = None, cursor_failure = None, execute_result = (\<lambda>q ps. Inr []),
      executemany_failure = (\<lambda>q rows. None), commit_failure = None,
      rollback_failure = None\<rparr> = None
   \<and> execute_cdc_batch_processing
        \<lparr>connect_failure = None, cursor_failure = None, execute_result = (\<lambda>q ps. Inr []),
         executemany_failure = (\<lambda>q rows. None), commit_failure = None,
         rollback_failure = None\<rparr>
        (SqlText ''extract_2026-02-03_080512'') ''2026-02-03''
      = (Inl (Exn ''Exception'' ''CDC stored procedure returned no results''),
         [Connect, Cursor,
          Execute cdc_query [SqlText ''extract_2026-02-03_080512'', SqlText ''2026-02-03''],
          Rollback, ReturnConnection])"
proof -
  let ?db1 = "\<lparr>connect_failure = None, cursor_failure = None,
      execute_result = (\<lambda>q ps. Inr [[SqlInt 5, SqlInt 0, SqlInt 3, SqlInt 2, SqlInt 20]]),
      executemany_failure = (\<lambda>q rows. None), commit_failure = None,
      rollback_failure = None\<rparr>"
  let ?db2 = "\<lparr>connect_failure = None, cursor_failure = None, execute_result = (\<lambda>q ps. Inr []),
      executemany_failure = (\<lambda>q rows. None), commit_failure = None,
      rollback_failure = None\<rparr>"
  have a1: "connect_failure ?db1 = None" by simp
  have a2: "connect_failure ?db2 = None" by simp
  have b1: "cursor_failure ?db1 = None" by simp
  have b2: "cursor_failure ?db2 = None" by simp
  have r1: "execute_cdc_batch_processing ?db1 (SqlText ''extract_2026-02-03_080512'') ''2026-02-03''
      = (Inr \<lparr>new_books = SqlInt 5, removed_books = SqlInt 0, price_changes = SqlInt 3,
              stock_changes = SqlInt 2, total_processed = SqlInt 20\<rparr>,
         [Connect, Cursor,
          Execute cdc_query [SqlText ''extract_2026-02-03_080512'', SqlText ''2026-02-03''],
          Commit, ReturnConnection])"
    using cdc_result_matches_row [OF a1 b1, of "SqlText ''extract_2026-02-03_080512''"
        "''2026-02-03''" "SqlInt 5" "SqlInt 0" "SqlInt 3" "SqlInt 2" "SqlInt 20" "[]"]
    by simp
  have r2: "execute_cdc_batch_processing ?db2 (SqlText ''extract_2026-02-03_080512'') ''2026-02-03''
      = (Inl (Exn ''Exception'' ''CDC stored procedure returned no results''),
         [Connect, Cursor,
          Execute cdc_query [SqlText ''extract_2026-02-03_080512'', SqlText ''2026-02-03''],
          Rollback, ReturnConnection])"
    using cdc_result_matches_row [OF a2 b2, of "SqlText ''extract_2026-02-03_080512''"
        "''2026-02-03''"]
    by simp
  show ?thesis using a1 a2 r1 r2 by blast
qed

text \<open>
  Claim C9. Whenever the \<open>try\<close> block of the Collector's handler raises, the handler
  raises the same exception to its caller. The Reconciler's handler never raises:
  it always returns a response, and whenever its \<open>try\<close> block raises, the response
  has status code 500 and an error body whose \<open>error_message\<close> and \<open>error_type\<close> are
  the message and the class name of the exception.
\<close>

theorem handlers_propagate_or_return:
  "(fst (extract_try cenv) = Inl e \<longrightarrow> fst (extract_lambda_handler cenv) = Inl e)
   \<and> (\<exists>r. fst (transform_lambda_handler renv) = Inr r)
   \<and> (fst (transform_try renv) = Inl e' \<longrightarrow>
        (\<exists>r b. fst (transform_lambda_handler renv) = Inr r \<and> statusCode r = 500 \<and>
               body r = ErrorBody b \<and> e_status b = ''error'' \<and>
               error_message b = exn_message e' \<and> error_type b = exn_type e'))"
proof (intro conjI impI)
  assume "fst (extract_try cenv) = Inl e"
  then show "fst (extract_lambda_handler cenv) = Inl e"
    by (cases "extract_try cenv") (simp add: extract_lambda_handler_def)
next
  show "\<exists>r. fst (transform_lambda_handler renv) = Inr r"
    by (cases "transform_try renv" rule: prod_cases3)
       (simp add: transform_lambda_handler_def split: sum.split)
next
  assume "fst (transform_try renv) = Inl e'"
  then show "\<exists>r b. fst (transform_lambda_handler renv) = Inr r \<and> statusCode r = 500 \<and>
               body r = ErrorBody b \<and> e_status b = ''error'' \<and>
               error_message b = exn_message e' \<and> error_type b = exn_type e'"
    by (cases "transform_try renv" rule: prod_cases3)
       (simp add: transform_lambda_handler_def)
qed

theorem handlers_witness:
  "fst (extract_try
     \<lparr>c_clock = \<lparr>isoformat = (\<lambda>n. ''2026-02-03T08:05:12''),
                 strftime_date = (\<lambda>n. ''2026-02-03''),
                 strftime_stamp = (\<lambda>n. ''2026-02-03_080512''),
                 elapsed_seconds = (\<lambda>i j. dec 0 0)\<rparr>,
      c_test_connection = False, c_scrape_books = Inr [],
      c_storage = \<lparr>get_object = (\<lambda>k. NoSuchKey), put_object_failure = (\<lambda>k. None)\<rparr>,
      c_database = \<lparr>connect_failure = None, cursor_failure = None, execute_result = (\<lambda>q ps. Inr []),
                     executemany_failure = (\<lambda>q rows. None), commit_failure = None,
                     rollback_failure = None\<rparr>\<rparr>)
     = Inl (Exn ''Exception'' ''Database connection test failed'')
   \<and> fst (extract_lambda_handler
     \<lparr>c_clock = \<lparr>isoformat = (\<lambda>n. ''2026-02-03T08:05:12''),
                 strftime_date = (\<lambda>n. ''2026-02-03''),
                 strftime_stamp = (\<lambda>n. ''2026-02-03_080512''),
                 elapsed_seconds = (\<lambda>i j. dec 0 0)\<rparr>,
      c_test_connection = False, c_scrape_books = Inr [],
      c_storage = \<lparr>get_object = (\<lambda>k. NoSuchKey), put_object_failure = (\<lambda>k. None)\<rparr>,
      c_database = \<lparr>connect_failure = None, cursor_failure = None, execute_result = (\<lambda>q ps. Inr []),
                     executemany_failure = (\<lambda>q rows. None), commit_failure = None,
                     rollback_failure = None\<rparr>\<rparr>)
     = Inl (Exn ''Exception'' ''Database connection test failed'')
   \<and> fst (transform_try
     \<lparr>r_clock = \<lparr>isoformat = (\<lambda>n. ''2026-02-04T00:00:00''),
                 strftime_date = (\<lambda>n. ''2026-02-04''),
                 strftime_stamp = (\<lambda>n. ''2026-02-04_000000''),
                 elapsed_seconds = (\<lambda>i j. dec 0 0)\<rparr>,
      r_test_connection = True,
      r_storage = \<lparr>get_object = (\<lambda>k. NoSuchKey), put_object_failure = (\<lambda>k. None)\<rparr>,
      r_batch_database = \<lparr>connect_failure = None, cursor_failure = None, execute_result = (\<lambda>q ps. Inr []),
                     executemany_failure = (\<lambda>q rows. None), commit_failure = None,
                     rollback_failure = None\<rparr>,
      r_cdc_database = \<lparr>connect_failure = None, cursor_failure = None, execute_result = (\<lambda>q ps. Inr []),
                     executemany_failure = (\<lambda>q rows. None), commit_failure = None,
                     rollback_failure = None\<rparr>\<rparr>)
     = Inl (Exn ''Exception'' ''Raw data file not found: raw/books/date=2026-02-04/books.json'')
   \<and> (\<exists>r b. fst (transform_lambda_handler
     \<lparr>r_clock = \<lparr>isoformat = (\<lambda>n. ''2026-02-04T00:00:00''),
                 strftime_date = (\<lambda>n. ''2026-02-04''),
                 strftime_stamp = (\<lambda>n. ''2026-02-04_000000''),
                 elapsed_seconds = (\<lambda>i j. dec 0 0)\<rparr>,
      r_test_connection = True,
      r_storage = \<lparr>get_object = (\<lambda>k. NoSuchKey), put_object_failure = (\<lambda>k. None)\<rparr>,
      r_batch_database = \<lparr>connect_failure = None, cursor_failure = None, execute_result = (\<lambda>q ps. Inr []),
                     executemany_failure = (\<lambda>q rows. None), commit_failure = None,
                     rollback_failure = None\<rparr>,
      r_cdc_database = \<lparr>connect_failure = None, cursor_failure = None, execute_result = (\<lambda>q ps. Inr []),
                     executemany_failure = (\<lambda>q rows. None), commit_failure = None,
                     rollback_failure = None\<rparr>\<rparr>) = Inr r \<and>
        statusCode r = 500 \<and> body r = ErrorBody b \<and> e_status b = ''error'' \<and>
        error_message b = ''Raw data file not found: raw/books/date=2026-02-04/books.json'' \<and>
        error_type b = ''Exception'')"
proof -
  let ?cenv = "\<lparr>c_clock = \<lparr>isoformat = (\<lambda>n. ''2026-02-03T08:05:12''),
                 strftime_date = (\<lambda>n. ''2026-02-03''),
                 strftime_stamp = (\<lambda>n. ''2026-02-03_080512''),
                 elapsed_seconds = (\<lambda>i j. dec 0 0)\<rparr>,
      c_test_connection = False, c_scrape_books = Inr [],
      c_storage = \<lparr>get_object = (\<lambda>k. NoSuchKey), put_object_failure = (\<lambda>k. None)\<rparr>,
      c_database = \<lparr>connect_failure = None, cursor_failure = None, execute_result = (\<lambda>q ps. Inr []),
                     executemany_failure = (\<lambda>q rows. None), commit_failure = None,
                     rollback_failure = None\<rparr>\<rparr>"
  let ?renv = "\<lparr>r_clock = \<lparr>isoformat = (\<lambda>n. ''2026-02-04T00:00:00''),
                 strftime_date = (\<lambda>n. ''2026-02-04''),
                 strftime_stamp = (\<lambda>n. ''2026-02-04_000000''),
                 elapsed_seconds = (\<lambda>i j. dec 0 0)\<rparr>,
      r_test_connection = True,
      r_storage = \<lparr>get_object = (\<lambda>k. NoSuchKey), put_object_failure = (\<lambda>k. None)\<rparr>,
      r_batch_database = \<lparr>connect_failure = None, cursor_failure = None, execute_result = (\<lambda>q ps. Inr []),
                     executemany_failure = (\<lambda>q rows. None), commit_failure = None,
                     rollback_failure = None\<rparr>,
      r_cdc_database = \<lparr>connect_failure = None, cursor_failure = None, execute_result = (\<lambda>q ps. Inr []),
                     executemany_failure = (\<lambda>q rows. None), commit_failure = None,
                     rollback_failure = None\<rparr>\<rparr>"
  let ?e = "Exn ''Exception'' ''Database connection test failed''"
  let ?e' = "Exn ''Exception'' ''Raw data file not found: raw/books/date=2026-02-04/books.json''"
  have c: "fst (extract_try ?cenv) = Inl ?e"
    by (simp add: extract_try_def Let_def)
  have r: "fst (transform_try ?renv) = Inl ?e'"
    by (simp add: transform_try_def read_from_s3_def Let_def)
  show ?thesis
    using c r handlers_propagate_or_return [of ?cenv ?e ?renv ?e'] by simp
qed

section \<open>The batch lookup against PostgreSQL\<close>

text \<open>
  What \<open>get_extract_batch_id\<close> does with the result of its query, whatever the
  database is: with no row it raises the \<open>Exception\<close> "No unprocessed batch found
  for date:" and the run date, and with a first row it returns the first column of
  that row.
\<close>

theorem batch_lookup_given_result:
  assumes "connect_failure db = None" "cursor_failure db = None"
  shows "(execute_result db batch_id_query [SqlText run_date] = Inr [] \<longrightarrow>
            fst (get_extract_batch_id db run_date) =
              Inl (Exn ''Exception'' (''No unprocessed batch found for date: '' @ run_date)))
       \<and> (execute_result db batch_id_query [SqlText run_date]
              = Inr ((batch_id # cols) # rows) \<longrightarrow>
            fst (get_extract_batch_id db run_date) = Inr batch_id)"
  using assms by (simp add: get_extract_batch_id_def fetchone_def)

theorem batch_lookup_given_result_witness:
  "connect_failure
     \<lparr>connect_failure = None, cursor_failure = None, execute_result = (\<lambda>q ps. Inr []),
      executemany_failure = (\<lambda>q rows. None), commit_failure = None,
      rollback_failure = None\<rparr> = None
   \<and> fst (get_extract_batch_id
        \<lparr>connect_failure = None, cursor_failure = None, execute_result = (\<lambda>q ps. Inr []),
         executemany_failure = (\<lambda>q rows. None), commit_failure = None,
         rollback_failure = None\<rparr> ''2026-02-04'')
      = Inl (Exn ''Exception'' ''No unprocessed batch found for date: 2026-02-04'')
   \<and> fst (get_extract_batch_id
        \<lparr>connect_failure = None, cursor_failure = None,
         execute_result = (\<lambda>q ps. Inr [[SqlText ''extract_2026-02-04_080512'']]),
         executemany_failure = (\<lambda>q rows. None), commit_failure = None,
         rollback_failure = None\<rparr> ''2026-02-04'')
      = Inr (SqlText ''extract_2026-02-04_080512'')"
proof -
  let ?db1 = "\<lparr>connect_failure = None, cursor_failure = None,
      execute_result = (\<lambda>q ps. Inr []),
      executemany_failure = (\<lambda>q rows. None), commit_failure = None,
      rollback_failure = None\<rparr>"
  let ?db2 = "\<lparr>connect_failure = None, cursor_failure = None,
      execute_result = (\<lambda>q ps. Inr [[SqlText ''extract_2026-02-04_080512'']]),
      executemany_failure = (\<lambda>q rows. None), commit_failure = None,
      rollback_failure = None\<rparr>"
  have a1: "connect_failure ?db1 = None" and b1: "cursor_failure ?db1 = None" by simp_all
  have a2: "connect_failure ?db2 = None" and b2: "cursor_failure ?db2 = None" by simp_all
  have r1: "fst (get_extract_batch_id ?db1 ''2026-02-04'')
      = Inl (Exn ''Exception'' ''No unprocessed batch found for date: 2026-02-04'')"
    using batch_lookup_given_result [OF a1 b1, of "''2026-02-04''"] by simp
  have r2: "fst (get_extract_batch_id ?db2 ''2026-02-04'')
      = Inr (SqlText ''extract_2026-02-04_080512'')"
    using batch_lookup_given_result [OF a2 b2, of "''2026-02-04''"
        "SqlText ''extract_2026-02-04_080512''" "[]" "[]"] by simp
  show ?thesis using a1 r1 r2 by blast
qed

lemma batch_id_query_rejected:
  "postgres_execute run batch_id_query params =
     Inl (Exn ''InvalidColumnReference''
            ''for SELECT DISTINCT, ORDER BY expressions must appear in select list'')"
  by (simp add: postgres_execute_def batch_id_query_def order_by_outside_select_list_def)

text \<open>
  Claim C7. The statement of \<open>get_extract_batch_id\<close> selects \<open>DISTINCT batch_id\<close> and
  orders by \<open>created_at\<close>, a column outside its select list. Against PostgreSQL,
  whatever the staging table holds and whatever the run date, \<open>cursor.execute\<close>
  raises \<open>InvalidColumnReference\<close> and the function raises it again: it returns no
  batch identifier, and where no unprocessed row exists it does not reach the
  \<open>Exception\<close> "No unprocessed batch found" (the specification's
  \<open>BatchNotFoundError\<close>).
\<close>

theorem batch_lookup_rejected_by_postgres:
  "get_extract_batch_id
     (db\<lparr>connect_failure := None, cursor_failure := None,
         execute_result := postgres_execute run\<rparr>) run_date =
     (Inl (Exn ''InvalidColumnReference''
             ''for SELECT DISTINCT, ORDER BY expressions must appear in select list''),
      [Connect, Cursor, Execute batch_id_query [SqlText run_date], ReturnConnection])"
  by (simp add: get_extract_batch_id_def batch_id_query_rejected)

end
